theory Spec2Isabelle
  imports Complex_Main "HOL-Library.AList"
begin

section \<open>Errors and the result type\<close>

text \<open>
  The exceptions the modelled code can raise.  \<open>CompatibilityError\<close> stands for the
  plain \<^verbatim>\<open>Exception("Error: log_tokens not in map table. ...")\<close> of
  \<^verbatim>\<open>__make_reverse_index__\<close>; \<open>FileNotFoundError\<close> is what \<^verbatim>\<open>open\<close> raises
  on a missing file; \<open>AssertionError\<close> is the \<^verbatim>\<open>assert\<close> of \<^verbatim>\<open>get\<close>.
  A function that may raise returns \<open>error + 'a\<close>, with \<open>Inl\<close> for the exception.
\<close>

datatype error =
  KeyError | IndexError | ZeroDivisionError | FileNotFoundError
  | CompatibilityError | AssertionError

definition rbind :: "error + 'a \<Rightarrow> ('a \<Rightarrow> error + 'b) \<Rightarrow> error + 'b" where
  "rbind m f = (case m of Inl e \<Rightarrow> Inl e | Inr x \<Rightarrow> f x)"

text \<open>A loop that produces one value per element and stops at the first exception.\<close>

fun mapM :: "('a \<Rightarrow> error + 'b) \<Rightarrow> 'a list \<Rightarrow> error + 'b list" where
  "mapM f [] = Inr []"
| "mapM f (x # xs) = rbind (f x) (\<lambda>y. rbind (mapM f xs) (\<lambda>ys. Inr (y # ys)))"

text \<open>Reading a field that a record may not carry: \<^verbatim>\<open>record["field"]\<close>.\<close>

definition field :: "'a option \<Rightarrow> error + 'a" where
  "field v = (case v of None \<Rightarrow> Inl KeyError | Some x \<Rightarrow> Inr x)"

section \<open>Tables and records\<close>

text \<open>
  A table is what \<^verbatim>\<open>__load_table__\<close> returns: the JSON list of records of the
  file, or the empty dictionary \<^verbatim>\<open>{}\<close> that replaces a missing file.  Iterating
  over either gives the records in order (none for \<^verbatim>\<open>{}\<close>); subscripting differs
  in the exception raised.
\<close>

datatype 'r table = Rows "'r list" | EmptyDict

fun rows :: "'r table \<Rightarrow> 'r list" where
  "rows (Rows xs) = xs"
| "rows EmptyDict = []"

fun subscript :: "'r table \<Rightarrow> nat \<Rightarrow> error + 'r" where
  "subscript (Rows xs) i = (if i < length xs then Inr (xs ! i) else Inl IndexError)"
| "subscript EmptyDict i = Inl KeyError"

text \<open>In-place mutation of the record at position \<open>i\<close> of a table.\<close>

fun set_row :: "'r table \<Rightarrow> nat \<Rightarrow> 'r \<Rightarrow> 'r table" where
  "set_row (Rows xs) i r = Rows (xs[i := r])"
| "set_row EmptyDict i r = EmptyDict"

fun map_rows :: "('r \<Rightarrow> 'r) \<Rightarrow> 'r table \<Rightarrow> 'r table" where
  "map_rows f (Rows xs) = Rows (map f xs)"
| "map_rows f EmptyDict = EmptyDict"

fun mapM_rows :: "('r \<Rightarrow> error + 'r) \<Rightarrow> 'r table \<Rightarrow> error + 'r table" where
  "mapM_rows f (Rows xs) = rbind (mapM f xs) (\<lambda>ys. Inr (Rows ys))"
| "mapM_rows f EmptyDict = Inr EmptyDict"

text \<open>
  The records of the thirteen tables, with the fields the modelled code reads or
  writes.  Field names are the JSON keys behind a prefix naming the table.  A field
  of type \<open>option\<close> is one that a record may lack: the derived fields that
  \<^verbatim>\<open>__make_reverse_index__\<close> attaches (\<open>category_name\<close>, \<open>sensor_modality\<close>,
  \<open>channel\<close>, \<open>data\<close>, \<open>anns\<close>, \<open>map_token\<close>) and \<open>log_tokens\<close>, whose
  presence the code tests.  Timestamps and coordinates are JSON numbers, modelled as
  reals.  A quaternion is its list of four components.
\<close>

type_synonym quaternion = "real list"

record category_rec =
  cat_token :: string
  cat_name :: string

record attribute_rec =
  attr_token :: string

record visibility_rec =
  vis_token :: string

record instance_rec =
  inst_token :: string
  inst_category_token :: string

record sensor_rec =
  sensor_token :: string
  sensor_channel :: string
  sensor_modality :: string

record calibrated_sensor_rec =
  cs_token :: string
  cs_sensor_token :: string
  cs_rotation :: quaternion
  cs_translation :: "real list"
  cs_camera_intrinsic :: "real list list"

record ego_pose_rec =
  pose_token :: string
  pose_rotation :: quaternion
  pose_translation :: "real list"

record log_rec =
  log_token :: string
  log_map_token :: "string option"

record scene_rec =
  scene_token :: string

record sample_rec =
  s_token :: string
  s_timestamp :: real
  s_prev :: string
  s_next :: string
  s_data :: "(string \<times> string) list option"
  s_anns :: "string list option"

record sample_data_rec =
  sd_token :: string
  sd_sample_token :: string
  sd_ego_pose_token :: string
  sd_calibrated_sensor_token :: string
  sd_timestamp :: real
  sd_is_key_frame :: bool
  sd_filename :: string
  sd_width :: int
  sd_height :: int
  sd_sensor_modality :: "string option"
  sd_channel :: "string option"

record sample_annotation_rec =
  ann_token :: string
  ann_sample_token :: string
  ann_instance_token :: string
  ann_translation :: "real list"
  ann_size :: "real list"
  ann_rotation :: quaternion
  ann_prev :: string
  ann_next :: string
  ann_category_name :: "string option"

record map_rec =
  map_token :: string
  map_filename :: string
  map_log_tokens :: "string list option"

text \<open>
  The \<^verbatim>\<open>LyftDataset\<close> object: one attribute per table and \<^verbatim>\<open>_token2ind\<close>, the
  dictionary from table name to the dictionary from token to position.
\<close>

record db =
  t_category :: "category_rec table"
  t_attribute :: "attribute_rec table"
  t_visibility :: "visibility_rec table"
  t_instance :: "instance_rec table"
  t_sensor :: "sensor_rec table"
  t_calibrated_sensor :: "calibrated_sensor_rec table"
  t_ego_pose :: "ego_pose_rec table"
  t_log :: "log_rec table"
  t_scene :: "scene_rec table"
  t_sample :: "sample_rec table"
  t_sample_data :: "sample_data_rec table"
  t_sample_annotation :: "sample_annotation_rec table"
  t_map :: "map_rec table"
  token2ind :: "string \<rightharpoonup> (string \<rightharpoonup> nat)"

definition table_names :: "string list" where
  "table_names =
     [''category'', ''attribute'', ''visibility'', ''instance'', ''sensor'',
      ''calibrated_sensor'', ''ego_pose'', ''log'', ''scene'', ''sample'',
      ''sample_data'', ''sample_annotation'', ''map'']"

section \<open>Loading a table\<close>

text \<open>
  \<^verbatim>\<open>__load_table__\<close>.  A path is its list of components; the file system maps the
  path of a regular file to its parsed JSON content.
\<close>

type_synonym path = "string list"

definition load_table ::
  "(path \<rightharpoonup> 'r table) \<Rightarrow> path \<Rightarrow> string \<Rightarrow> bool \<Rightarrow> error + 'r table" where
  "load_table fs json_path table_name missing_ok =
     (let filepath = json_path @ [table_name @ ''.json''] in
      if fs filepath = None \<and> missing_ok then Inr EmptyDict
      else (case fs filepath of
              None \<Rightarrow> Inl FileNotFoundError
            | Some table \<Rightarrow> Inr table))"

section \<open>The reverse index and \<^verbatim>\<open>get\<close>\<close>

text \<open>
  \<open>table_tokens db table\<close> is \<^verbatim>\<open>[member["token"] for member in getattr(self, table)]\<close>.
\<close>

definition table_tokens :: "db \<Rightarrow> string \<Rightarrow> string list" where
  "table_tokens db table =
     (if table = ''category'' then map cat_token (rows (t_category db))
      else if table = ''attribute'' then map attr_token (rows (t_attribute db))
      else if table = ''visibility'' then map vis_token (rows (t_visibility db))
      else if table = ''instance'' then map inst_token (rows (t_instance db))
      else if table = ''sensor'' then map sensor_token (rows (t_sensor db))
      else if table = ''calibrated_sensor'' then map cs_token (rows (t_calibrated_sensor db))
      else if table = ''ego_pose'' then map pose_token (rows (t_ego_pose db))
      else if table = ''log'' then map log_token (rows (t_log db))
      else if table = ''scene'' then map scene_token (rows (t_scene db))
      else if table = ''sample'' then map s_token (rows (t_sample db))
      else if table = ''sample_data'' then map sd_token (rows (t_sample_data db))
      else if table = ''sample_annotation'' then map ann_token (rows (t_sample_annotation db))
      else if table = ''map'' then map map_token (rows (t_map db))
      else [])"

text \<open>
  The inner loop \<^verbatim>\<open>for ind, member in enumerate(...): d[member["token"]] = ind\<close>,
  started at position \<open>ind\<close> with the dictionary \<open>d\<close>.
\<close>

fun index_tokens :: "string list \<Rightarrow> nat \<Rightarrow> (string \<rightharpoonup> nat) \<Rightarrow> (string \<rightharpoonup> nat)" where
  "index_tokens [] ind d = d"
| "index_tokens (tok # toks) ind d = index_tokens toks (Suc ind) (d(tok \<mapsto> ind))"

definition build_token2ind :: "db \<Rightarrow> (string \<rightharpoonup> (string \<rightharpoonup> nat))" where
  "build_token2ind db =
     fold (\<lambda>table t2i. t2i(table \<mapsto> index_tokens (table_tokens db table) 0 Map.empty))
       table_names Map.empty"

definition getind :: "db \<Rightarrow> string \<Rightarrow> string \<Rightarrow> error + nat" where
  "getind db table_name token =
     (case token2ind db table_name of
        None \<Rightarrow> Inl KeyError
      | Some d \<Rightarrow> (case d token of None \<Rightarrow> Inl KeyError | Some ind \<Rightarrow> Inr ind))"

text \<open>
  \<^verbatim>\<open>get\<close>.  The argument \<open>attr\<close> is \<^verbatim>\<open>getattr(self, table_name)\<close>: every call
  passes the name of a table together with the attribute holding that table.
\<close>

definition get :: "db \<Rightarrow> string \<Rightarrow> (db \<Rightarrow> 'r table) \<Rightarrow> string \<Rightarrow> error + 'r" where
  "get db table_name attr token =
     (if table_name \<notin> set table_names then Inl AssertionError
      else rbind (getind db table_name token) (subscript (attr db)))"

section \<open>De-normalisation: \<^verbatim>\<open>__make_reverse_index__\<close>\<close>

text \<open>Decorating \<open>sample_annotation\<close> with the category name.\<close>

definition decorate_annotation :: "db \<Rightarrow> sample_annotation_rec \<Rightarrow> error + sample_annotation_rec" where
  "decorate_annotation db record =
     rbind (get db ''instance'' t_instance (ann_instance_token record)) (\<lambda>inst.
     rbind (get db ''category'' t_category (inst_category_token inst)) (\<lambda>cat.
     Inr (record\<lparr>ann_category_name := Some (cat_name cat)\<rparr>)))"

text \<open>Decorating \<open>sample_data\<close> with the sensor's modality and channel.\<close>

definition decorate_sample_data :: "db \<Rightarrow> sample_data_rec \<Rightarrow> error + sample_data_rec" where
  "decorate_sample_data db record =
     rbind (get db ''calibrated_sensor'' t_calibrated_sensor
              (sd_calibrated_sensor_token record)) (\<lambda>cs_record.
     rbind (get db ''sensor'' t_sensor (cs_sensor_token cs_record)) (\<lambda>sensor_record.
     Inr (record\<lparr>sd_sensor_modality := Some (sensor_modality sensor_record),
                 sd_channel := Some (sensor_channel sensor_record)\<rparr>)))"

definition init_sample :: "sample_rec \<Rightarrow> sample_rec" where
  "init_sample record = record\<lparr>s_data := Some [], s_anns := Some []\<rparr>"

text \<open>
  The loop over \<open>sample_data\<close> that fills \<^verbatim>\<open>sample_record["data"]\<close>.  The sample
  record is the object at the indexed position of the sample table, mutated in place.
\<close>

fun link_sample_data :: "db \<Rightarrow> sample_data_rec list \<Rightarrow> error + db" where
  "link_sample_data db [] = Inr db"
| "link_sample_data db (record # records) =
     (if sd_is_key_frame record then
        rbind (getind db ''sample'' (sd_sample_token record)) (\<lambda>ind.
        rbind (subscript (t_sample db) ind) (\<lambda>sample_record.
        rbind (field (s_data sample_record)) (\<lambda>data.
        rbind (field (sd_channel record)) (\<lambda>channel.
        link_sample_data
          (db\<lparr>t_sample := set_row (t_sample db) ind
                (sample_record\<lparr>s_data :=
                   Some (AList.update channel (sd_token record) data)\<rparr>)\<rparr>)
          records))))
      else link_sample_data db records)"

text \<open>The loop over \<open>sample_annotation\<close> that appends to \<^verbatim>\<open>sample_record["anns"]\<close>.\<close>

fun link_annotations :: "db \<Rightarrow> sample_annotation_rec list \<Rightarrow> error + db" where
  "link_annotations db [] = Inr db"
| "link_annotations db (ann_record # ann_records) =
     rbind (getind db ''sample'' (ann_sample_token ann_record)) (\<lambda>ind.
     rbind (subscript (t_sample db) ind) (\<lambda>sample_record.
     rbind (field (s_anns sample_record)) (\<lambda>anns.
     link_annotations
       (db\<lparr>t_sample := set_row (t_sample db) ind
             (sample_record\<lparr>s_anns := Some (anns @ [ann_token ann_record])\<rparr>)\<rparr>)
       ann_records)))"

text \<open>
  The nested iteration that builds \<^verbatim>\<open>log_to_map\<close>: for every map record, every
  log token of its \<open>log_tokens\<close> is mapped to the map's token (a later map wins).
\<close>

fun build_log_to_map ::
  "map_rec list \<Rightarrow> (string \<rightharpoonup> string) \<Rightarrow> error + (string \<rightharpoonup> string)" where
  "build_log_to_map [] log_to_map = Inr log_to_map"
| "build_log_to_map (map_record # map_records) log_to_map =
     rbind (field (map_log_tokens map_record)) (\<lambda>log_tokens.
     build_log_to_map map_records
       (fold (\<lambda>log_token l2m. l2m(log_token \<mapsto> map_token map_record)) log_tokens log_to_map))"

definition attach_map_token :: "(string \<rightharpoonup> string) \<Rightarrow> log_rec \<Rightarrow> error + log_rec" where
  "attach_map_token log_to_map log_record =
     rbind (field (log_to_map (log_token log_record))) (\<lambda>tok.
     Inr (log_record\<lparr>log_map_token := Some tok\<rparr>))"

text \<open>
  The function in two parts: the index and the decoration of annotations, sample data
  and samples (\<open>denormalize_tables\<close>, lines 130 to 162 of the source), then the
  backlinks from logs to maps (\<open>link_logs\<close>, lines 164 to 172).
\<close>

definition denormalize_tables :: "db \<Rightarrow> error + db" where
  "denormalize_tables db0 =
     (let db1 = db0\<lparr>token2ind := build_token2ind db0\<rparr> in
      rbind (mapM_rows (decorate_annotation db1) (t_sample_annotation db1)) (\<lambda>anns.
      let db2 = db1\<lparr>t_sample_annotation := anns\<rparr> in
      rbind (mapM_rows (decorate_sample_data db2) (t_sample_data db2)) (\<lambda>sds.
      let db3 = db2\<lparr>t_sample_data := sds\<rparr>;
          db4 = db3\<lparr>t_sample := map_rows init_sample (t_sample db3)\<rparr> in
      rbind (link_sample_data db4 (rows (t_sample_data db4))) (\<lambda>db5.
      link_annotations db5 (rows (t_sample_annotation db5))))))"

definition link_logs :: "db \<Rightarrow> error + db" where
  "link_logs db =
     rbind (subscript (t_map db) 0) (\<lambda>map0.
     if map_log_tokens map0 = None then Inl CompatibilityError
     else
       rbind (build_log_to_map (rows (t_map db)) Map.empty) (\<lambda>log_to_map.
       rbind (mapM_rows (attach_map_token log_to_map) (t_log db)) (\<lambda>logs.
       Inr (db\<lparr>t_log := logs\<rparr>))))"

definition make_reverse_index :: "db \<Rightarrow> error + db" where
  "make_reverse_index db = rbind (denormalize_tables db) link_logs"

section \<open>Boxes and the external geometry\<close>

text \<open>
  A \<^verbatim>\<open>Box\<close> as the code constructs it: centre, size, orientation, name and token.
  The class itself, the quaternion library, \<^verbatim>\<open>np.interp\<close> and the visibility
  check \<^verbatim>\<open>box_in_image\<close>, like numpy's cosine and sine, live outside the modelled
  file; the functions below
  take them as the parameter \<open>E\<close>.  \<open>np_interp E x (x0, x1) (f0, f1)\<close> is
  \<^verbatim>\<open>np.interp(x, [x0, x1], [f0, f1])\<close>; \<open>box_translate\<close> and \<open>box_rotate\<close>
  return the box that the in-place methods leave behind.  The type \<open>'v\<close> is the
  visibility level.
\<close>

record box =
  box_center :: "real list"
  box_size :: "real list"
  box_orientation :: quaternion
  box_name :: string
  box_token :: string

record 'v ext =
  np_interp :: "real \<Rightarrow> real \<times> real \<Rightarrow> real \<times> real \<Rightarrow> real"
  slerp :: "quaternion \<Rightarrow> quaternion \<Rightarrow> real \<Rightarrow> quaternion"
  q_inverse :: "quaternion \<Rightarrow> quaternion"
  yaw_pitch_roll :: "quaternion \<Rightarrow> real \<times> real \<times> real"
  np_cos :: "real \<Rightarrow> real"
  np_sin :: "real \<Rightarrow> real"
  box_translate :: "box \<Rightarrow> real list \<Rightarrow> box"
  box_rotate :: "box \<Rightarrow> quaternion \<Rightarrow> box"
  box_in_image :: "box \<Rightarrow> real list list option \<Rightarrow> (int \<times> int) option \<Rightarrow> 'v \<Rightarrow> bool"

text \<open>Python's \<^verbatim>\<open>/\<close> on two JSON numbers raises on a zero divisor.\<close>

definition py_div :: "real \<Rightarrow> real \<Rightarrow> error + real" where
  "py_div a b = (if b = 0 then Inl ZeroDivisionError else Inr (a / b))"

section \<open>\<^verbatim>\<open>get_box\<close> and \<^verbatim>\<open>get_boxes\<close>\<close>

definition get_box :: "db \<Rightarrow> string \<Rightarrow> error + box" where
  "get_box db sample_annotation_token =
     rbind (get db ''sample_annotation'' t_sample_annotation sample_annotation_token) (\<lambda>record.
     rbind (field (ann_category_name record)) (\<lambda>name.
     Inr \<lparr>box_center = ann_translation record, box_size = ann_size record,
          box_orientation = ann_rotation record, box_name = name,
          box_token = ann_token record\<rparr>))"

text \<open>The body of the loop over \<^verbatim>\<open>curr_ann_recs\<close> in the interpolating branch.\<close>

definition interpolate_box ::
  "'v ext \<Rightarrow> db \<Rightarrow> (string \<rightharpoonup> sample_annotation_rec) \<Rightarrow> real \<Rightarrow> real \<Rightarrow> real
     \<Rightarrow> sample_annotation_rec \<Rightarrow> error + box" where
  "interpolate_box E db prev_inst_map t0 t1 t curr_ann_rec =
     (case prev_inst_map (ann_instance_token curr_ann_rec) of
        Some prev_ann_rec \<Rightarrow>
          (let center = map (\<lambda>(c0, c1). np_interp E t (t0, t1) (c0, c1))
                          (zip (ann_translation prev_ann_rec) (ann_translation curr_ann_rec)) in
           rbind (py_div (t - t0) (t1 - t0)) (\<lambda>amount.
           let rotation = slerp E (ann_rotation prev_ann_rec) (ann_rotation curr_ann_rec) amount in
           rbind (field (ann_category_name curr_ann_rec)) (\<lambda>name.
           Inr \<lparr>box_center = center, box_size = ann_size curr_ann_rec,
                box_orientation = rotation, box_name = name,
                box_token = ann_token curr_ann_rec\<rparr>)))
      | None \<Rightarrow> get_box db (ann_token curr_ann_rec))"

definition get_boxes :: "'v ext \<Rightarrow> db \<Rightarrow> string \<Rightarrow> error + box list" where
  "get_boxes E db sample_data_token =
     rbind (get db ''sample_data'' t_sample_data sample_data_token) (\<lambda>sd_record.
     rbind (get db ''sample'' t_sample (sd_sample_token sd_record)) (\<lambda>curr_sample_record.
     if s_prev curr_sample_record = '''' \<or> sd_is_key_frame sd_record then
       rbind (field (s_anns curr_sample_record)) (mapM (get_box db))
     else
       rbind (get db ''sample'' t_sample (s_prev curr_sample_record)) (\<lambda>prev_sample_record.
       rbind (field (s_anns curr_sample_record)) (\<lambda>curr_anns.
       rbind (mapM (get db ''sample_annotation'' t_sample_annotation) curr_anns) (\<lambda>curr_ann_recs.
       rbind (field (s_anns prev_sample_record)) (\<lambda>prev_anns.
       rbind (mapM (get db ''sample_annotation'' t_sample_annotation) prev_anns) (\<lambda>prev_ann_recs.
       let prev_inst_map =
             fold (\<lambda>entry m. m(ann_instance_token entry \<mapsto> entry)) prev_ann_recs Map.empty;
           t0 = s_timestamp prev_sample_record;
           t1 = s_timestamp curr_sample_record;
           t = sd_timestamp sd_record;
           t = max t0 (min t1 t)
       in mapM (interpolate_box E db prev_inst_map t0 t1 t) curr_ann_recs)))))))"

section \<open>\<^verbatim>\<open>box_velocity\<close>\<close>

text \<open>
  The function computes in binary floating point.  A finite double is modelled by the
  real number it denotes, and the arithmetic by the parameter \<open>rd\<close>, the rounding of
  a real number to the nearest double: an IEEE operation returns the rounded exact
  result, so the float product of \<open>a\<close> and \<open>b\<close> is \<open>rd (a * b)\<close>, and likewise
  for difference and quotient.  The literal \<^verbatim>\<open>1e-6\<close> is \<open>rd (1 / 1000000)\<close>.
  Comparison of doubles is exact.  Timestamps and coordinates are read as the doubles
  (or integers that a double holds exactly) of the JSON file; overflow is not
  modelled.

  A component of the returned numpy array is a finite number, an infinity or NaN.
  Dividing an array by a float does not raise in numpy: a zero divisor gives an
  infinity, or NaN for \<open>0 / 0\<close>.
\<close>

datatype npfloat = Finite real | PosInf | NegInf | NaN

definition np_divide :: "(real \<Rightarrow> real) \<Rightarrow> real \<Rightarrow> real \<Rightarrow> npfloat" where
  "np_divide rd x y =
     (if y = 0 then (if x = 0 then NaN else if 0 < x then PosInf else NegInf)
      else Finite (rd (x / y)))"

definition box_velocity ::
  "(real \<Rightarrow> real) \<Rightarrow> db \<Rightarrow> string \<Rightarrow> real \<Rightarrow> error + npfloat list" where
  "box_velocity rd db sample_annotation_token max_time_diff =
     rbind (get db ''sample_annotation'' t_sample_annotation sample_annotation_token) (\<lambda>current.
     let has_prev = (ann_prev current \<noteq> '''');
         has_next = (ann_next current \<noteq> '''') in
     if \<not> has_prev \<and> \<not> has_next then Inr [NaN, NaN, NaN]
     else
       rbind (if has_prev then get db ''sample_annotation'' t_sample_annotation (ann_prev current)
              else Inr current) (\<lambda>first.
       rbind (if has_next then get db ''sample_annotation'' t_sample_annotation (ann_next current)
              else Inr current) (\<lambda>last.
       let pos_last = ann_translation last;
           pos_first = ann_translation first;
           pos_diff = map2 (\<lambda>l f. rd (l - f)) pos_last pos_first in
       rbind (get db ''sample'' t_sample (ann_sample_token last)) (\<lambda>sample_last.
       let time_last = rd (rd (1 / 1000000) * s_timestamp sample_last) in
       rbind (get db ''sample'' t_sample (ann_sample_token first)) (\<lambda>sample_first.
       let time_first = rd (rd (1 / 1000000) * s_timestamp sample_first);
           time_diff = rd (time_last - time_first);
           max_time_diff = (if has_next \<and> has_prev then rd (max_time_diff * 2)
                            else max_time_diff) in
       if time_diff > max_time_diff then Inr [NaN, NaN, NaN]
       else Inr (map (\<lambda>d. np_divide rd d time_diff) pos_diff))))))"

text \<open>
  The rounding of a real number to the nearest double, ties to even, to run the
  examples in double arithmetic: a double has 53 significant bits, so a number
  \<open>x\<close> with \<open>2 ^ k \<le> \<bar>x\<bar> < 2 ^ (k + 1)\<close> is rounded to a multiple of
  \<open>2 ^ (k - 52)\<close>.  The exponent is not bounded: no overflow, no subnormal numbers.
\<close>

definition round_half_even :: "real \<Rightarrow> int" where
  "round_half_even y =
     (let f = \<lfloor>y\<rfloor> in
      if y - of_int f < 1 / 2 then f
      else if 1 / 2 < y - of_int f then f + 1
      else if even f then f else f + 1)"

definition round_double :: "real \<Rightarrow> real" where
  "round_double x =
     (if x = 0 then 0
      else let e = \<lfloor>log 2 \<bar>x\<bar>\<rfloor> - 52
           in of_int (round_half_even (x / 2 powi e)) * 2 powi e)"

section \<open>\<^verbatim>\<open>get_sample_data\<close>\<close>

definition get_sample_data_path :: "path \<Rightarrow> db \<Rightarrow> string \<Rightarrow> error + path" where
  "get_sample_data_path data_path db sample_data_token =
     rbind (get db ''sample_data'' t_sample_data sample_data_token) (\<lambda>sd_record.
     Inr (data_path @ [sd_filename sd_record]))"

text \<open>The coordinate change applied to each box, in place in the source.\<close>

definition to_sensor_frame ::
  "'v ext \<Rightarrow> ego_pose_rec \<Rightarrow> calibrated_sensor_rec \<Rightarrow> bool \<Rightarrow> box \<Rightarrow> box" where
  "to_sensor_frame E pose_record cs_record flat_vehicle_coordinates box =
     (if flat_vehicle_coordinates then
        (let ypr = yaw_pitch_roll E (pose_rotation pose_record);
             yaw = fst ypr;
             box = box_translate E box (map uminus (pose_translation pose_record))
         in box_rotate E box (q_inverse E [np_cos E (yaw / 2), 0, 0, np_sin E (yaw / 2)]))
      else
        (let box = box_translate E box (map uminus (pose_translation pose_record));
             box = box_rotate E box (q_inverse E (pose_rotation pose_record));
             box = box_translate E box (map uminus (cs_translation cs_record))
         in box_rotate E box (q_inverse E (cs_rotation cs_record))))"

text \<open>The loop that builds \<^verbatim>\<open>box_list\<close>.\<close>

fun collect_boxes ::
  "'v ext \<Rightarrow> sensor_rec \<Rightarrow> ego_pose_rec \<Rightarrow> calibrated_sensor_rec \<Rightarrow> bool
     \<Rightarrow> real list list option \<Rightarrow> (int \<times> int) option \<Rightarrow> 'v \<Rightarrow> box list \<Rightarrow> box list" where
  "collect_boxes E sensor_record pose_record cs_record flat cam_intrinsic imsize vis [] = []"
| "collect_boxes E sensor_record pose_record cs_record flat cam_intrinsic imsize vis (b # boxes) =
     (let box = to_sensor_frame E pose_record cs_record flat b in
      if sensor_modality sensor_record = ''camera''
         \<and> \<not> box_in_image E box cam_intrinsic imsize vis
      then collect_boxes E sensor_record pose_record cs_record flat cam_intrinsic imsize vis boxes
      else box # collect_boxes E sensor_record pose_record cs_record flat cam_intrinsic imsize vis boxes)"

definition get_sample_data ::
  "'v ext \<Rightarrow> path \<Rightarrow> db \<Rightarrow> string \<Rightarrow> 'v \<Rightarrow> string list option \<Rightarrow> bool
     \<Rightarrow> error + (path \<times> box list \<times> real list list option)" where
  "get_sample_data E data_path db sample_data_token box_vis_level selected_anntokens
       flat_vehicle_coordinates =
     rbind (get db ''sample_data'' t_sample_data sample_data_token) (\<lambda>sd_record.
     rbind (get db ''calibrated_sensor'' t_calibrated_sensor
              (sd_calibrated_sensor_token sd_record)) (\<lambda>cs_record.
     rbind (get db ''sensor'' t_sensor (cs_sensor_token cs_record)) (\<lambda>sensor_record.
     rbind (get db ''ego_pose'' t_ego_pose (sd_ego_pose_token sd_record)) (\<lambda>pose_record.
     rbind (get_sample_data_path data_path db sample_data_token) (\<lambda>path.
     let (cam_intrinsic, imsize) =
           (if sensor_modality sensor_record = ''camera''
            then (Some (cs_camera_intrinsic cs_record),
                  Some (sd_width sd_record, sd_height sd_record))
            else (None, None)) in
     rbind (case selected_anntokens of
              Some tokens \<Rightarrow> mapM (get_box db) tokens
            | None \<Rightarrow> get_boxes E db sample_data_token) (\<lambda>boxes.
     Inr (path,
          collect_boxes E sensor_record pose_record cs_record flat_vehicle_coordinates
            cam_intrinsic imsize box_vis_level boxes,
          cam_intrinsic)))))))"

section \<open>A small dataset\<close>

text \<open>
  Two samples, one annotated instance seen in both and one seen in the second only,
  a camera and a lidar, key frames (two of them on the lidar channel of the second
  sample) and two intermediate lidar captures (one stamped before the first sample,
  one after the second), one log and one map.  The timestamp of the second sample
  and the map table are parameters.
\<close>

definition demo_annotations :: "sample_annotation_rec list" where
  "demo_annotations =
     [\<lparr>ann_token = ''a1'', ann_sample_token = ''s1'', ann_instance_token = ''i1'',
       ann_translation = [0, 0, 0], ann_size = [2, 4, 1], ann_rotation = [1, 0, 0, 0],
       ann_prev = '''', ann_next = ''a2'', ann_category_name = None\<rparr>,
      \<lparr>ann_token = ''a2'', ann_sample_token = ''s2'', ann_instance_token = ''i1'',
       ann_translation = [2, 0, 0], ann_size = [2, 4, 1], ann_rotation = [0, 0, 0, 1],
       ann_prev = ''a1'', ann_next = '''', ann_category_name = None\<rparr>,
      \<lparr>ann_token = ''a3'', ann_sample_token = ''s2'', ann_instance_token = ''i2'',
       ann_translation = [5, 5, 0], ann_size = [1, 1, 2], ann_rotation = [1, 0, 0, 0],
       ann_prev = '''', ann_next = '''', ann_category_name = None\<rparr>]"

definition demo_sample_data :: "sample_data_rec list" where
  "demo_sample_data =
     [\<lparr>sd_token = ''d1'', sd_sample_token = ''s1'', sd_ego_pose_token = ''p1'',
       sd_calibrated_sensor_token = ''cs1'', sd_timestamp = 1000000, sd_is_key_frame = True,
       sd_filename = ''cam1.jpg'', sd_width = 1600, sd_height = 900,
       sd_sensor_modality = None, sd_channel = None\<rparr>,
      \<lparr>sd_token = ''d2'', sd_sample_token = ''s2'', sd_ego_pose_token = ''p1'',
       sd_calibrated_sensor_token = ''cs2'', sd_timestamp = 2000000, sd_is_key_frame = True,
       sd_filename = ''lidar2.bin'', sd_width = 0, sd_height = 0,
       sd_sensor_modality = None, sd_channel = None\<rparr>,
      \<lparr>sd_token = ''d3'', sd_sample_token = ''s2'', sd_ego_pose_token = ''p1'',
       sd_calibrated_sensor_token = ''cs2'', sd_timestamp = 900000, sd_is_key_frame = False,
       sd_filename = ''lidar3.bin'', sd_width = 0, sd_height = 0,
       sd_sensor_modality = None, sd_channel = None\<rparr>,
      \<lparr>sd_token = ''d4'', sd_sample_token = ''s2'', sd_ego_pose_token = ''p1'',
       sd_calibrated_sensor_token = ''cs2'', sd_timestamp = 2100000, sd_is_key_frame = False,
       sd_filename = ''lidar4.bin'', sd_width = 0, sd_height = 0,
       sd_sensor_modality = None, sd_channel = None\<rparr>,
      \<lparr>sd_token = ''d5'', sd_sample_token = ''s2'', sd_ego_pose_token = ''p1'',
       sd_calibrated_sensor_token = ''cs1'', sd_timestamp = 2000000, sd_is_key_frame = True,
       sd_filename = ''cam5.jpg'', sd_width = 1600, sd_height = 900,
       sd_sensor_modality = None, sd_channel = None\<rparr>,
      \<lparr>sd_token = ''d6'', sd_sample_token = ''s2'', sd_ego_pose_token = ''p1'',
       sd_calibrated_sensor_token = ''cs2'', sd_timestamp = 2000000, sd_is_key_frame = True,
       sd_filename = ''lidar6.bin'', sd_width = 0, sd_height = 0,
       sd_sensor_modality = None, sd_channel = None\<rparr>]"

definition demo_samples :: "real \<Rightarrow> sample_rec list" where
  "demo_samples t1 =
     [\<lparr>s_token = ''s1'', s_timestamp = 1000000, s_prev = '''', s_next = ''s2'',
       s_data = None, s_anns = None\<rparr>,
      \<lparr>s_token = ''s2'', s_timestamp = t1, s_prev = ''s1'', s_next = '''',
       s_data = None, s_anns = None\<rparr>]"

definition demo_raw :: "real \<Rightarrow> map_rec list \<Rightarrow> db" where
  "demo_raw t1 maps =
     \<lparr>t_category = Rows [\<lparr>cat_token = ''c1'', cat_name = ''car''\<rparr>],
      t_attribute = EmptyDict,
      t_visibility = Rows [],
      t_instance = Rows [\<lparr>inst_token = ''i1'', inst_category_token = ''c1''\<rparr>,
                         \<lparr>inst_token = ''i2'', inst_category_token = ''c1''\<rparr>],
      t_sensor = Rows [\<lparr>sensor_token = ''sn1'', sensor_channel = ''CAM_FRONT'',
                        sensor_modality = ''camera''\<rparr>,
                       \<lparr>sensor_token = ''sn2'', sensor_channel = ''LIDAR_TOP'',
                        sensor_modality = ''lidar''\<rparr>],
      t_calibrated_sensor =
        Rows [\<lparr>cs_token = ''cs1'', cs_sensor_token = ''sn1'', cs_rotation = [1, 0, 0, 0],
               cs_translation = [1, 0, 2], cs_camera_intrinsic = [[1, 0, 0], [0, 1, 0], [0, 0, 1]]\<rparr>,
              \<lparr>cs_token = ''cs2'', cs_sensor_token = ''sn2'', cs_rotation = [1, 0, 0, 0],
               cs_translation = [0, 0, 2], cs_camera_intrinsic = []\<rparr>],
      t_ego_pose = Rows [\<lparr>pose_token = ''p1'', pose_rotation = [1, 0, 0, 0],
                          pose_translation = [3, 20, 0]\<rparr>],
      t_log = Rows [\<lparr>log_token = ''l1'', log_map_token = None\<rparr>],
      t_scene = Rows [\<lparr>scene_token = ''sc1''\<rparr>],
      t_sample = Rows (demo_samples t1),
      t_sample_data = Rows demo_sample_data,
      t_sample_annotation = Rows demo_annotations,
      t_map = Rows maps,
      token2ind = Map.empty\<rparr>"

definition demo_map :: map_rec where
  "demo_map = \<lparr>map_token = ''m1'', map_filename = ''map.png'', map_log_tokens = Some [''l1'']\<rparr>"

definition legacy_map :: map_rec where
  "legacy_map = \<lparr>map_token = ''m2'', map_filename = ''map2.png'', map_log_tokens = None\<rparr>"

definition unlinked_map :: map_rec where
  "unlinked_map = \<lparr>map_token = ''m3'', map_filename = ''map3.png'', map_log_tokens = Some []\<rparr>"

text \<open>The dataset after the first part of \<^verbatim>\<open>__make_reverse_index__\<close>, and after all of it.\<close>

definition demo_den :: "real \<Rightarrow> map_rec list \<Rightarrow> db" where
  "demo_den t1 maps =
     (demo_raw t1 maps)
     \<lparr>t_sample :=
        Rows [\<lparr>s_token = ''s1'', s_timestamp = 1000000, s_prev = '''', s_next = ''s2'',
               s_data = Some [(''CAM_FRONT'', ''d1'')], s_anns = Some [''a1'']\<rparr>,
              \<lparr>s_token = ''s2'', s_timestamp = t1, s_prev = ''s1'', s_next = '''',
               s_data = Some [(''LIDAR_TOP'', ''d6''), (''CAM_FRONT'', ''d5'')],
               s_anns = Some [''a2'', ''a3'']\<rparr>],
      t_sample_data :=
        Rows (map (\<lambda>r. r\<lparr>sd_sensor_modality :=
                           Some (if sd_calibrated_sensor_token r = ''cs1'' then ''camera'' else ''lidar''),
                         sd_channel :=
                           Some (if sd_calibrated_sensor_token r = ''cs1'' then ''CAM_FRONT''
                                 else ''LIDAR_TOP'')\<rparr>) demo_sample_data),
      t_sample_annotation := Rows (map (\<lambda>r. r\<lparr>ann_category_name := Some ''car''\<rparr>) demo_annotations),
      token2ind := build_token2ind (demo_raw t1 maps)\<rparr>"

definition demo_out :: "real \<Rightarrow> db" where
  "demo_out t1 =
     (demo_den t1 [demo_map])\<lparr>t_log := Rows [\<lparr>log_token = ''l1'', log_map_token = Some ''m1''\<rparr>]\<rparr>"

text \<open>
  A stand-in for the external geometry, to run the examples: piecewise linear
  interpolation, component-wise linear interpolation of quaternions between their end
  points, truncated series for cosine and sine, a box that moves
  with a translation and keeps its pose under a rotation, and a visibility check that
  asks for a positive first coordinate.
\<close>

definition demo_ext :: "unit ext" where
  "demo_ext =
     \<lparr>np_interp = (\<lambda>x (x0, x1) (f0, f1).
          if x \<le> x0 then f0 else if x1 \<le> x then f1
          else f0 + (x - x0) * (f1 - f0) / (x1 - x0)),
      slerp = (\<lambda>q0 q1 amount.
          if amount = 0 then q0 else if amount = 1 then q1
          else map2 (\<lambda>a b. a + amount * (b - a)) q0 q1),
      q_inverse = (\<lambda>q. q),
      yaw_pitch_roll = (\<lambda>q. (0, 0, 0)),
      np_cos = (\<lambda>x. 1 - x * x / 2),
      np_sin = (\<lambda>x. x),
      box_translate = (\<lambda>b x. b\<lparr>box_center := map2 (+) (box_center b) x\<rparr>),
      box_rotate = (\<lambda>b q. b),
      box_in_image = (\<lambda>b cam_intrinsic imsize vis. 0 < hd (box_center b))\<rparr>"

text \<open>
  The same dataset with the rotation of the first annotation negated, and that of the
  second equal to \<open>[1, 0, 0, 0]\<close>: the two quaternions have a negative dot product.
\<close>

definition flip_rotation :: "sample_annotation_rec \<Rightarrow> sample_annotation_rec" where
  "flip_rotation r =
     r\<lparr>ann_rotation := (if ann_token r = ''a1'' then [- 1, 0, 0, 0] else [1, 0, 0, 0])\<rparr>"

definition flip_raw :: db where
  "flip_raw =
     (demo_raw 2000000 [demo_map])
     \<lparr>t_sample_annotation := Rows (map flip_rotation demo_annotations)\<rparr>"

definition flip_out :: db where
  "flip_out =
     (demo_out 2000000)
     \<lparr>t_sample_annotation :=
        Rows (map (\<lambda>r. (flip_rotation r)\<lparr>ann_category_name := Some ''car''\<rparr>) demo_annotations),
      token2ind := build_token2ind flip_raw\<rparr>"

text \<open>
  The external geometry with an interpolation of quaternions that follows the shorter
  arc, as the quaternion library does: \<open>q0\<close> is negated when its dot product with
  \<open>q1\<close> is negative, and the two are then interpolated linearly (the library's
  branch for nearly parallel unit quaternions, which leaves a unit result as it is).
\<close>

definition slerp_shortest_arc :: "quaternion \<Rightarrow> quaternion \<Rightarrow> real \<Rightarrow> quaternion" where
  "slerp_shortest_arc q0 q1 amount =
     (let dot = sum_list (map2 (*) q0 q1);
          q0 = (if dot < 0 then map uminus q0 else q0)
      in map2 (\<lambda>a b. a + amount * (b - a)) q0 q1)"

definition arc_ext :: "unit ext" where
  "arc_ext = demo_ext\<lparr>slerp := slerp_shortest_arc\<rparr>"

section \<open>Auxiliary lemmas\<close>

lemma rbind_simps [simp]:
  "rbind (Inl e) f = Inl e" "rbind (Inr x) f = f x"
  by (simp_all add: rbind_def)

lemma rbind_Inr_iff: "rbind m f = Inr y \<longleftrightarrow> (\<exists>x. m = Inr x \<and> f x = Inr y)"
  by (cases m) simp_all

lemma field_Inr_iff [simp]: "field v = Inr x \<longleftrightarrow> v = Some x"
  by (simp add: field_def split: option.splits)

lemma field_Some [simp]: "field (Some x) = Inr x" and field_None [simp]: "field None = Inl KeyError"
  by (simp_all add: field_def)

lemma mapM_Inr_length: "mapM f xs = Inr ys \<Longrightarrow> length ys = length xs"
  by (induction xs arbitrary: ys) (auto simp: rbind_Inr_iff)

lemma mapM_Inr_nth:
  "mapM f xs = Inr ys \<Longrightarrow> i < length xs \<Longrightarrow> f (xs ! i) = Inr (ys ! i)"
proof (induction xs arbitrary: ys i)
  case Nil
  then show ?case by simp
next
  case (Cons x xs)
  then show ?case by (cases i) (auto simp: rbind_Inr_iff)
qed

lemma mapM_Inr_map:
  assumes "mapM f xs = Inr ys" and "\<And>x y. f x = Inr y \<Longrightarrow> g y = h x"
  shows "map g ys = map h xs"
  using assms by (induction xs arbitrary: ys) (auto simp: rbind_Inr_iff)

lemma mapM_all_Inr:
  assumes "\<And>x. x \<in> set xs \<Longrightarrow> \<exists>y. f x = Inr y"
  shows "\<exists>ys. mapM f xs = Inr ys"
  using assms
proof (induction xs)
  case Nil
  then show ?case by simp
next
  case (Cons x xs)
  then obtain y where "f x = Inr y" by auto
  moreover from Cons obtain ys where "mapM f xs = Inr ys" by auto
  ultimately show ?case by simp
qed

lemma index_tokens_sound:
  "index_tokens toks n d tok = Some i \<Longrightarrow>
     d tok = Some i \<or> (n \<le> i \<and> i < n + length toks \<and> toks ! (i - n) = tok)"
proof (induction toks arbitrary: n d)
  case Nil
  then show ?case by simp
next
  case (Cons a toks)
  from Cons.IH [OF Cons.prems [simplified]]
  show ?case
    by (auto split: if_splits simp: nth_Cons')
qed

lemma index_tokens_notin:
  "tok \<notin> set toks \<Longrightarrow> index_tokens toks n d tok = d tok"
  by (induction toks arbitrary: n d) auto

lemma index_tokens_complete:
  "tok \<in> set toks \<Longrightarrow> \<exists>i. index_tokens toks n d tok = Some i \<and> n \<le> i \<and> i < n + length toks \<and> toks ! (i - n) = tok"
proof (induction toks arbitrary: n d)
  case Nil
  then show ?case by simp
next
  case (Cons a toks)
  show ?case
  proof (cases "tok \<in> set toks")
    case True
    from Cons.IH [OF True, of "Suc n" "d(a \<mapsto> n)"]
    obtain i where i: "index_tokens toks (Suc n) (d(a \<mapsto> n)) tok = Some i"
      "Suc n \<le> i" "i < Suc n + length toks" "toks ! (i - Suc n) = tok"
      by blast
    from i(2) have "i - n = Suc (i - Suc n)" by simp
    with i(4) have "(a # toks) ! (i - n) = tok" by simp
    with i show ?thesis by (intro exI [of _ i]) simp
  next
    case False
    with Cons.prems have "a = tok" by simp
    with False show ?thesis by (simp add: index_tokens_notin)
  qed
qed

lemma index_tokens_distinct:
  assumes "distinct toks" and "i < length toks"
  shows "index_tokens toks 0 Map.empty (toks ! i) = Some i"
proof -
  from assms(2) have "toks ! i \<in> set toks" by simp
  from index_tokens_complete [OF this, of 0 Map.empty]
  obtain j where j: "index_tokens toks 0 Map.empty (toks ! i) = Some j" "j < length toks" "toks ! j = toks ! i"
    by auto
  with assms have "j = i" by (simp add: nth_eq_iff_index_eq)
  with j show ?thesis by simp
qed

lemma fold_upd_lookup:
  "fold (\<lambda>k m. m(k \<mapsto> f k)) ks m0 k = (if k \<in> set ks then Some (f k) else m0 k)"
  by (induction ks arbitrary: m0) auto

lemma build_token2ind_lookup:
  "build_token2ind db table =
     (if table \<in> set table_names then Some (index_tokens (table_tokens db table) 0 Map.empty) else None)"
  unfolding build_token2ind_def by (simp add: fold_upd_lookup)

lemma subscript_rows: "i < length (rows t) \<Longrightarrow> subscript t i = Inr (rows t ! i)"
  by (cases t) simp_all

lemma subscript_Inr_iff: "subscript t i = Inr r \<longleftrightarrow> i < length (rows t) \<and> rows t ! i = r"
  by (cases t) auto

lemma rows_set_row: "rows (set_row t i r) = (rows t)[i := r]"
  by (cases t) simp_all

lemma rows_map_rows: "rows (map_rows f t) = map f (rows t)"
  by (cases t) simp_all

lemma mapM_rows_Inr_iff:
  "mapM_rows f t = Inr t' \<longleftrightarrow>
     (t = EmptyDict \<and> t' = EmptyDict) \<or> (\<exists>xs ys. t = Rows xs \<and> t' = Rows ys \<and> mapM f xs = Inr ys)"
  by (cases t) (auto simp: rbind_Inr_iff)

lemma mapM_rows_rows: "mapM_rows f t = Inr t' \<Longrightarrow> mapM f (rows t) = Inr (rows t')"
  by (auto simp: mapM_rows_Inr_iff)

lemma map_update_same: "i < length xs \<Longrightarrow> f r = f (xs ! i) \<Longrightarrow> map f (xs[i := r]) = map f xs"
  by (simp add: map_update list_update_same_conv)

lemma getind_Inr_iff:
  "getind db table tok = Inr i \<longleftrightarrow> (\<exists>d. token2ind db table = Some d \<and> d tok = Some i)"
  by (auto simp: getind_def split: option.splits)

lemma build_token2ind_cong:
  "table_tokens db' = table_tokens db \<Longrightarrow> build_token2ind db' = build_token2ind db"
  by (simp add: build_token2ind_def)

lemma table_names_simps [simp]:
  "''category'' \<in> set table_names" "''attribute'' \<in> set table_names"
  "''visibility'' \<in> set table_names" "''instance'' \<in> set table_names"
  "''sensor'' \<in> set table_names" "''calibrated_sensor'' \<in> set table_names"
  "''ego_pose'' \<in> set table_names" "''log'' \<in> set table_names"
  "''scene'' \<in> set table_names" "''sample'' \<in> set table_names"
  "''sample_data'' \<in> set table_names" "''sample_annotation'' \<in> set table_names"
  "''map'' \<in> set table_names"
  by (simp_all add: table_names_def)

text \<open>What the index gives, for a table whose tokens the index was built from.\<close>

lemma get_sound:
  assumes idx: "token2ind db = build_token2ind db"
    and toks: "table_tokens db table = map tk (rows (attr db))"
    and get: "get db table attr tok = Inr r"
  shows "\<exists>i. getind db table tok = Inr i \<and> i < length (rows (attr db)) \<and> rows (attr db) ! i = r \<and> tk r = tok"
proof -
  from get have tn: "table \<in> set table_names"
    by (auto simp: get_def split: if_splits)
  with get obtain i where i: "getind db table tok = Inr i" "subscript (attr db) i = Inr r"
    by (auto simp: get_def rbind_Inr_iff)
  from i(1) idx tn have "index_tokens (map tk (rows (attr db))) 0 Map.empty tok = Some i"
    by (simp add: getind_Inr_iff build_token2ind_lookup toks)
  from index_tokens_sound [OF this] i(2) have "tk r = tok"
    by (auto simp: subscript_Inr_iff)
  with i show ?thesis by (auto simp: subscript_Inr_iff)
qed

lemma get_complete:
  assumes idx: "token2ind db = build_token2ind db"
    and tn: "table \<in> set table_names"
    and toks: "table_tokens db table = map tk (rows (attr db))"
    and mem: "tok \<in> tk ` set (rows (attr db))"
  shows "\<exists>r. get db table attr tok = Inr r"
proof -
  from mem have "tok \<in> set (map tk (rows (attr db)))" by simp
  from index_tokens_complete [OF this, of 0 Map.empty]
  obtain i where i: "index_tokens (map tk (rows (attr db))) 0 Map.empty tok = Some i"
    "i < length (rows (attr db))" by auto
  from i(1) idx tn have "getind db table tok = Inr i"
    by (simp add: getind_Inr_iff build_token2ind_lookup toks)
  with i(2) tn show ?thesis by (simp add: get_def subscript_rows)
qed

lemma get_roundtrip:
  assumes idx: "token2ind db = build_token2ind db"
    and tn: "table \<in> set table_names"
    and toks: "table_tokens db table = map tk (rows (attr db))"
    and dist: "distinct (map tk (rows (attr db)))"
    and mem: "r \<in> set (rows (attr db))"
  shows "get db table attr (tk r) = Inr r"
proof -
  from mem obtain j where j: "j < length (rows (attr db))" "rows (attr db) ! j = r"
    by (auto simp: in_set_conv_nth)
  from index_tokens_distinct [OF dist, of j] j
  have "index_tokens (map tk (rows (attr db))) 0 Map.empty (tk r) = Some j" by simp
  with idx tn have "getind db table (tk r) = Inr j"
    by (simp add: getind_Inr_iff build_token2ind_lookup toks)
  with j tn show ?thesis by (simp add: get_def subscript_rows)
qed

lemma table_tokens_simps:
  "table_tokens db ''category'' = map cat_token (rows (t_category db))"
  "table_tokens db ''attribute'' = map attr_token (rows (t_attribute db))"
  "table_tokens db ''visibility'' = map vis_token (rows (t_visibility db))"
  "table_tokens db ''instance'' = map inst_token (rows (t_instance db))"
  "table_tokens db ''sensor'' = map sensor_token (rows (t_sensor db))"
  "table_tokens db ''calibrated_sensor'' = map cs_token (rows (t_calibrated_sensor db))"
  "table_tokens db ''ego_pose'' = map pose_token (rows (t_ego_pose db))"
  "table_tokens db ''log'' = map log_token (rows (t_log db))"
  "table_tokens db ''scene'' = map scene_token (rows (t_scene db))"
  "table_tokens db ''sample'' = map s_token (rows (t_sample db))"
  "table_tokens db ''sample_data'' = map sd_token (rows (t_sample_data db))"
  "table_tokens db ''sample_annotation'' = map ann_token (rows (t_sample_annotation db))"
  "table_tokens db ''map'' = map map_token (rows (t_map db))"
  by (simp_all add: table_tokens_def)

text \<open>Updates of one table that keep its tokens keep every token list.\<close>

lemma table_tokens_upd_sample:
  "map s_token (rows X) = map s_token (rows (t_sample db)) \<Longrightarrow>
     table_tokens (db\<lparr>t_sample := X\<rparr>) = table_tokens db"
  by (simp add: table_tokens_def fun_eq_iff)

lemma table_tokens_upd_sample_data:
  "map sd_token (rows X) = map sd_token (rows (t_sample_data db)) \<Longrightarrow>
     table_tokens (db\<lparr>t_sample_data := X\<rparr>) = table_tokens db"
  by (simp add: table_tokens_def fun_eq_iff)

lemma table_tokens_upd_sample_annotation:
  "map ann_token (rows X) = map ann_token (rows (t_sample_annotation db)) \<Longrightarrow>
     table_tokens (db\<lparr>t_sample_annotation := X\<rparr>) = table_tokens db"
  by (simp add: table_tokens_def fun_eq_iff)

lemma table_tokens_upd_log:
  "map log_token (rows X) = map log_token (rows (t_log db)) \<Longrightarrow>
     table_tokens (db\<lparr>t_log := X\<rparr>) = table_tokens db"
  by (simp add: table_tokens_def fun_eq_iff)

lemma table_tokens_upd_token2ind:
  "table_tokens (db\<lparr>token2ind := X\<rparr>) = table_tokens db"
  by (simp add: table_tokens_def fun_eq_iff)

lemma set_AList_update: "set (AList.update k v al) \<subseteq> insert (k, v) (set al)"
  by (induction al) auto

lemma get_unfold:
  "table \<in> set table_names \<Longrightarrow> get db table attr tok = rbind (getind db table tok) (subscript (attr db))"
  by (simp add: get_def)

lemma sample_step:
  assumes "subscript (t_sample db) ind = Inr s" and "s_token s' = s_token s"
  shows "table_tokens (db\<lparr>t_sample := set_row (t_sample db) ind s'\<rparr>) = table_tokens db"
  using assms
  by (intro table_tokens_upd_sample) (simp add: rows_set_row subscript_Inr_iff map_update_same)

lemma link_sample_data_Cons_key:
  assumes "sd_is_key_frame r" and "link_sample_data db (r # rs) = Inr db'"
  obtains ind s data ch where "getind db ''sample'' (sd_sample_token r) = Inr ind"
    and "subscript (t_sample db) ind = Inr s" and "s_data s = Some data"
    and "sd_channel r = Some ch"
    and "link_sample_data
         (db\<lparr>t_sample := set_row (t_sample db) ind
               (s\<lparr>s_data := Some (AList.update ch (sd_token r) data)\<rparr>)\<rparr>) rs = Inr db'"
  using assms by (auto simp: rbind_Inr_iff)


lemma link_annotations_Cons:
  assumes "link_annotations db (r # rs) = Inr db'"
  obtains ind s anns where "getind db ''sample'' (ann_sample_token r) = Inr ind"
    and "subscript (t_sample db) ind = Inr s" and "s_anns s = Some anns"
    and "link_annotations
       (db\<lparr>t_sample := set_row (t_sample db) ind
             (s\<lparr>s_anns := Some (anns @ [ann_token r])\<rparr>)\<rparr>) rs = Inr db'"
  using assms by (auto simp: rbind_Inr_iff)

lemma link_sample_data_frame:
  "link_sample_data db rs = Inr db' \<Longrightarrow>
     token2ind db' = token2ind db \<and> table_tokens db' = table_tokens db
     \<and> t_sample_data db' = t_sample_data db
     \<and> t_sample_annotation db' = t_sample_annotation db
     \<and> t_map db' = t_map db \<and> t_log db' = t_log db"
proof (induction rs arbitrary: db)
  case Nil
  then show ?case by simp
next
  case (Cons r rs)
  show ?case
  proof (cases "sd_is_key_frame r")
    case False
    with Cons.prems have "link_sample_data db rs = Inr db'" by simp
    from Cons.IH [OF this] show ?thesis .
  next
    case True
    show ?thesis
    proof (rule link_sample_data_Cons_key [OF True Cons.prems])
      fix ind s data ch
      assume s: "subscript (t_sample db) ind = Inr s"
        and rest: "link_sample_data
           (db\<lparr>t_sample := set_row (t_sample db) ind
                 (s\<lparr>s_data := Some (AList.update ch (sd_token r) data)\<rparr>)\<rparr>) rs = Inr db'"
      have "s_token (s\<lparr>s_data := Some (AList.update ch (sd_token r) data)\<rparr>) = s_token s"
        by simp
      from sample_step [OF s this] Cons.IH [OF rest]
      show ?thesis by simp
    qed
  qed
qed

lemma link_annotations_frame:
  "link_annotations db rs = Inr db' \<Longrightarrow>
     token2ind db' = token2ind db \<and> table_tokens db' = table_tokens db
     \<and> t_sample_data db' = t_sample_data db
     \<and> t_sample_annotation db' = t_sample_annotation db
     \<and> t_map db' = t_map db \<and> t_log db' = t_log db
     \<and> map (\<lambda>s. (s_token s, s_data s)) (rows (t_sample db'))
         = map (\<lambda>s. (s_token s, s_data s)) (rows (t_sample db))"
proof (induction rs arbitrary: db)
  case Nil
  then show ?case by simp
next
  case (Cons r rs)
  show ?case
  proof (rule link_annotations_Cons [OF Cons.prems])
    fix ind s anns
    assume s: "subscript (t_sample db) ind = Inr s"
      and rest: "link_annotations
       (db\<lparr>t_sample := set_row (t_sample db) ind
             (s\<lparr>s_anns := Some (anns @ [ann_token r])\<rparr>)\<rparr>) rs = Inr db'"
    let ?s' = "s\<lparr>s_anns := Some (anns @ [ann_token r])\<rparr>"
    have tok: "s_token ?s' = s_token s" by simp
    from s have "map (\<lambda>s. (s_token s, s_data s)) (rows (set_row (t_sample db) ind ?s'))
        = map (\<lambda>s. (s_token s, s_data s)) (rows (t_sample db))"
      by (simp add: rows_set_row subscript_Inr_iff map_update_same)
    with sample_step [OF s tok] Cons.IH [OF rest]
    show ?thesis by simp
  qed
qed

text \<open>
  The invariant of the loop that fills \<open>data\<close>: every token stored under a sample
  is the token of a key frame of \<open>SD\<close> that names this sample.
\<close>

lemma link_sample_data_inv:
  assumes "token2ind db = build_token2ind db"
    and "\<forall>s\<in>set (rows (t_sample db)). \<forall>d. s_data s = Some d \<longrightarrow>
           (\<forall>p\<in>set d. \<exists>r\<in>set SD. sd_token r = snd p \<and> sd_is_key_frame r
                                   \<and> sd_sample_token r = s_token s)"
    and "set rs \<subseteq> set SD"
    and "link_sample_data db rs = Inr db'"
  shows "\<forall>s\<in>set (rows (t_sample db')). \<forall>d. s_data s = Some d \<longrightarrow>
           (\<forall>p\<in>set d. \<exists>r\<in>set SD. sd_token r = snd p \<and> sd_is_key_frame r
                                   \<and> sd_sample_token r = s_token s)"
  using assms
proof (induction rs arbitrary: db)
  case Nil
  then show ?case by simp
next
  case (Cons r rs)
  from Cons.prems(3) have sub: "set rs \<subseteq> set SD" and r: "r \<in> set SD" by simp_all
  show ?case
  proof (cases "sd_is_key_frame r")
    case False
    with Cons.prems(4) have "link_sample_data db rs = Inr db'" by simp
    from Cons.IH [OF Cons.prems(1) Cons.prems(2) sub this] show ?thesis .
  next
    case True
    show ?thesis
    proof (rule link_sample_data_Cons_key [OF True Cons.prems(4)])
      fix ind s data ch
      assume ind: "getind db ''sample'' (sd_sample_token r) = Inr ind"
        and s: "subscript (t_sample db) ind = Inr s"
        and data: "s_data s = Some data"
        and rest: "link_sample_data
           (db\<lparr>t_sample := set_row (t_sample db) ind
                 (s\<lparr>s_data := Some (AList.update ch (sd_token r) data)\<rparr>)\<rparr>) rs = Inr db'"
      let ?s' = "s\<lparr>s_data := Some (AList.update ch (sd_token r) data)\<rparr>"
      let ?db1 = "db\<lparr>t_sample := set_row (t_sample db) ind ?s'\<rparr>"
      from ind s have "get db ''sample'' t_sample (sd_sample_token r) = Inr s"
        by (simp add: get_unfold)
      from get_sound [OF Cons.prems(1) table_tokens_simps(10) this]
      have tok: "s_token s = sd_sample_token r"
        by (elim exE conjE)
      from s have mem: "s \<in> set (rows (t_sample db))"
        by (simp add: subscript_Inr_iff) (metis nth_mem)
      have tok': "s_token ?s' = s_token s" by simp
      have idx1: "token2ind ?db1 = build_token2ind ?db1"
        using Cons.prems(1) build_token2ind_cong [OF sample_step [OF s tok']]
        by simp
      have old: "\<forall>p\<in>set data. \<exists>r\<in>set SD. sd_token r = snd p \<and> sd_is_key_frame r
                                   \<and> sd_sample_token r = s_token s"
        using Cons.prems(2) mem data by simp
      have new: "\<forall>p\<in>set (AList.update ch (sd_token r) data).
          \<exists>r\<in>set SD. sd_token r = snd p \<and> sd_is_key_frame r \<and> sd_sample_token r = s_token s"
      proof
        fix p assume "p \<in> set (AList.update ch (sd_token r) data)"
        with set_AList_update [of ch "sd_token r" data]
        have "p = (ch, sd_token r) \<or> p \<in> set data" by blast
        then show "\<exists>r\<in>set SD. sd_token r = snd p \<and> sd_is_key_frame r \<and> sd_sample_token r = s_token s"
        proof
          assume "p = (ch, sd_token r)"
          with r True tok show ?thesis by (intro bexI [of _ r]) simp_all
        next
          assume "p \<in> set data"
          with old show ?thesis by simp
        qed
      qed
      have inv1: "\<forall>s\<in>set (rows (t_sample ?db1)). \<forall>d. s_data s = Some d \<longrightarrow>
             (\<forall>p\<in>set d. \<exists>r\<in>set SD. sd_token r = snd p \<and> sd_is_key_frame r
                                     \<and> sd_sample_token r = s_token s)"
      proof
        fix x assume "x \<in> set (rows (t_sample ?db1))"
        then have "x \<in> set ((rows (t_sample db))[ind := ?s'])" by (simp add: rows_set_row)
        with set_update_subset_insert [of "rows (t_sample db)" ind ?s']
        have "x = ?s' \<or> x \<in> set (rows (t_sample db))" by (simp add: subset_iff)
        then show "\<forall>d. s_data x = Some d \<longrightarrow>
             (\<forall>p\<in>set d. \<exists>r\<in>set SD. sd_token r = snd p \<and> sd_is_key_frame r
                                     \<and> sd_sample_token r = s_token x)"
        proof
          assume "x = ?s'"
          with new show ?thesis by simp
        next
          assume "x \<in> set (rows (t_sample db))"
          with Cons.prems(2) show ?thesis by simp
        qed
      qed
      from Cons.IH [OF idx1 inv1 sub rest] show ?thesis .
    qed
  qed
qed

lemma decorate_annotation_token:
  "decorate_annotation db r = Inr r' \<Longrightarrow> ann_token r' = ann_token r"
  by (auto simp: decorate_annotation_def rbind_Inr_iff)

lemma decorate_sample_data_token:
  "decorate_sample_data db r = Inr r' \<Longrightarrow> sd_token r' = sd_token r"
  by (auto simp: decorate_sample_data_def rbind_Inr_iff)

lemma mapM_rows_tokens:
  assumes "mapM_rows f t = Inr t'" and "\<And>x y. f x = Inr y \<Longrightarrow> tk y = tk x"
  shows "map tk (rows t') = map tk (rows t)"
  using mapM_Inr_map [OF mapM_rows_rows [OF assms(1)], of tk tk] assms(2) by simp

lemma denormalize_tables_elim:
  assumes "denormalize_tables db0 = Inr db"
  obtains anns sds db5 where
    "mapM_rows (decorate_annotation (db0\<lparr>token2ind := build_token2ind db0\<rparr>))
       (t_sample_annotation db0) = Inr anns"
    and "mapM_rows (decorate_sample_data
           (db0\<lparr>token2ind := build_token2ind db0, t_sample_annotation := anns\<rparr>))
       (t_sample_data db0) = Inr sds"
    and "link_sample_data
           (db0\<lparr>token2ind := build_token2ind db0, t_sample_annotation := anns,
                t_sample_data := sds, t_sample := map_rows init_sample (t_sample db0)\<rparr>)
           (rows sds) = Inr db5"
    and "link_annotations db5 (rows (t_sample_annotation db5)) = Inr db"
  using assms unfolding denormalize_tables_def Let_def
  by (auto simp: rbind_Inr_iff)


lemma denormalize_tables_props:
  assumes den: "denormalize_tables db0 = Inr db"
  shows "token2ind db = build_token2ind db"
    and "t_map db = t_map db0" and "t_log db = t_log db0"
    and "\<forall>s\<in>set (rows (t_sample db)). \<forall>d. s_data s = Some d \<longrightarrow>
           (\<forall>p\<in>set d. \<exists>r\<in>set (rows (t_sample_data db)). sd_token r = snd p
               \<and> sd_is_key_frame r \<and> sd_sample_token r = s_token s)"
proof -
  obtain anns sds db5 where
    anns: "mapM_rows (decorate_annotation (db0\<lparr>token2ind := build_token2ind db0\<rparr>))
       (t_sample_annotation db0) = Inr anns"
    and sds: "mapM_rows (decorate_sample_data
           (db0\<lparr>token2ind := build_token2ind db0, t_sample_annotation := anns\<rparr>))
       (t_sample_data db0) = Inr sds"
    and l5: "link_sample_data
           (db0\<lparr>token2ind := build_token2ind db0, t_sample_annotation := anns,
                t_sample_data := sds, t_sample := map_rows init_sample (t_sample db0)\<rparr>)
           (rows sds) = Inr db5"
    and l6: "link_annotations db5 (rows (t_sample_annotation db5)) = Inr db"
    by (rule denormalize_tables_elim [OF den])
  let ?db4 = "db0\<lparr>token2ind := build_token2ind db0, t_sample_annotation := anns,
                t_sample_data := sds, t_sample := map_rows init_sample (t_sample db0)\<rparr>"
    have t1: "map ann_token (rows anns) = map ann_token (rows (t_sample_annotation db0))"
      by (rule mapM_rows_tokens [OF anns]) (rule decorate_annotation_token)
    have t2: "map sd_token (rows sds) = map sd_token (rows (t_sample_data db0))"
      by (rule mapM_rows_tokens [OF sds]) (rule decorate_sample_data_token)
    have t3: "map s_token (rows (map_rows init_sample (t_sample db0)))
        = map s_token (rows (t_sample db0))"
      by (simp add: rows_map_rows init_sample_def)
    have tt: "table_tokens ?db4 = table_tokens db0"
      using t1 t2 t3 by (simp add: table_tokens_def fun_eq_iff)
    have idx4: "token2ind ?db4 = build_token2ind ?db4"
      using build_token2ind_cong [OF tt] by simp
    have inv4: "\<forall>s\<in>set (rows (t_sample ?db4)). \<forall>d. s_data s = Some d \<longrightarrow>
           (\<forall>p\<in>set d. \<exists>r\<in>set (rows sds). sd_token r = snd p \<and> sd_is_key_frame r
                                   \<and> sd_sample_token r = s_token s)"
      by (auto simp: rows_map_rows init_sample_def)
    have inv5: "\<forall>s\<in>set (rows (t_sample db5)). \<forall>d. s_data s = Some d \<longrightarrow>
           (\<forall>p\<in>set d. \<exists>r\<in>set (rows sds). sd_token r = snd p \<and> sd_is_key_frame r
                                   \<and> sd_sample_token r = s_token s)"
      by (rule link_sample_data_inv [OF idx4 inv4 subset_refl l5])
    from link_sample_data_frame [OF l5]
    have f5: "token2ind db5 = token2ind ?db4" "table_tokens db5 = table_tokens ?db4"
      "t_sample_data db5 = sds" "t_map db5 = t_map db0" "t_log db5 = t_log db0"
      by simp_all
    from link_annotations_frame [OF l6]
    have f6: "token2ind db = token2ind db5" "table_tokens db = table_tokens db5"
      "t_sample_data db = t_sample_data db5" "t_map db = t_map db5" "t_log db = t_log db5"
      and pairs: "map (\<lambda>s. (s_token s, s_data s)) (rows (t_sample db))
         = map (\<lambda>s. (s_token s, s_data s)) (rows (t_sample db5))"
      by simp_all
    have idx: "token2ind db = build_token2ind db"
      using f6(1) f5(1) idx4 build_token2ind_cong [of db ?db4] f6(2) f5(2) by simp
    have inv: "\<forall>s\<in>set (rows (t_sample db)). \<forall>d. s_data s = Some d \<longrightarrow>
           (\<forall>p\<in>set d. \<exists>r\<in>set (rows (t_sample_data db)). sd_token r = snd p
               \<and> sd_is_key_frame r \<and> sd_sample_token r = s_token s)"
    proof
      fix x assume "x \<in> set (rows (t_sample db))"
      then have "(s_token x, s_data x) \<in> set (map (\<lambda>s. (s_token s, s_data s)) (rows (t_sample db)))"
        by simp
      with pairs have "(s_token x, s_data x) \<in> (\<lambda>s. (s_token s, s_data s)) ` set (rows (t_sample db5))"
        by simp
      then obtain y where y: "y \<in> set (rows (t_sample db5))" "s_token y = s_token x"
        "s_data y = s_data x" by (metis (no_types, lifting) imageE prod.inject)
      from inv5 y(1) have "\<forall>d. s_data y = Some d \<longrightarrow>
           (\<forall>p\<in>set d. \<exists>r\<in>set (rows sds). sd_token r = snd p \<and> sd_is_key_frame r
                                   \<and> sd_sample_token r = s_token y)" by (rule bspec)
      with y(2,3) f6(3) f5(3)
      show "\<forall>d. s_data x = Some d \<longrightarrow>
           (\<forall>p\<in>set d. \<exists>r\<in>set (rows (t_sample_data db)). sd_token r = snd p
               \<and> sd_is_key_frame r \<and> sd_sample_token r = s_token x)" by simp
    qed
  from idx show "token2ind db = build_token2ind db" .
  from f5 f6 show "t_map db = t_map db0" by simp
  from f5 f6 show "t_log db = t_log db0" by simp
  from inv show "\<forall>s\<in>set (rows (t_sample db)). \<forall>d. s_data s = Some d \<longrightarrow>
           (\<forall>p\<in>set d. \<exists>r\<in>set (rows (t_sample_data db)). sd_token r = snd p
               \<and> sd_is_key_frame r \<and> sd_sample_token r = s_token s)" .
qed

lemma build_log_to_map_Inl:
  "build_log_to_map ms m0 = Inl e \<Longrightarrow> e = KeyError"
  by (induction ms arbitrary: m0) (auto simp: rbind_def field_def split: sum.splits option.splits)

lemma build_log_to_map_lacking:
  "m \<in> set ms \<Longrightarrow> map_log_tokens m = None \<Longrightarrow> build_log_to_map ms m0 = Inl KeyError"
proof (induction ms arbitrary: m0)
  case Nil
  then show ?case by simp
next
  case (Cons a ms)
  show ?case
  proof (cases "map_log_tokens a")
    case None
    then show ?thesis by simp
  next
    case (Some lts)
    with Cons.prems have "m \<in> set ms" by auto
    from Cons.IH [OF this Cons.prems(2)] Some show ?thesis by simp
  qed
qed

lemma build_log_to_map_covered:
  "build_log_to_map ms m0 = Inr l2m \<Longrightarrow> l2m k = Some v \<Longrightarrow>
     m0 k = Some v \<or> (\<exists>m\<in>set ms. \<exists>lts. map_log_tokens m = Some lts \<and> k \<in> set lts)"
proof (induction ms arbitrary: m0)
  case Nil
  then show ?case by simp
next
  case (Cons a ms)
  from Cons.prems(1) obtain lts where lts: "map_log_tokens a = Some lts"
    and rest: "build_log_to_map ms
       (fold (\<lambda>log_token l2m. l2m(log_token \<mapsto> map_token a)) lts m0) = Inr l2m"
    by (auto simp: rbind_Inr_iff)
  from Cons.IH [OF rest Cons.prems(2)]
  show ?case
  proof
    assume "fold (\<lambda>log_token l2m. l2m(log_token \<mapsto> map_token a)) lts m0 k = Some v"
    then have "k \<in> set lts \<or> m0 k = Some v"
      by (simp add: fold_upd_lookup [where f = "\<lambda>_. map_token a"] split: if_splits)
    with lts show ?thesis by auto
  next
    assume "\<exists>m\<in>set ms. \<exists>lts. map_log_tokens m = Some lts \<and> k \<in> set lts"
    then show ?thesis by auto
  qed
qed

lemma mapM_Inl:
  "mapM f xs = Inl e \<Longrightarrow> \<exists>x\<in>set xs. f x = Inl e"
  by (induction xs) (auto simp: rbind_def split: sum.splits)

lemma mapM_Inr_all:
  "mapM f xs = Inr ys \<Longrightarrow> x \<in> set xs \<Longrightarrow> \<exists>y. f x = Inr y"
  by (induction xs arbitrary: ys) (auto simp: rbind_Inr_iff)

lemma attach_map_token_Inl:
  "attach_map_token l2m l = Inl e \<Longrightarrow> e = KeyError"
  by (auto simp: attach_map_token_def rbind_def field_def split: sum.splits option.splits)

lemma attach_map_token_Inr:
  "attach_map_token l2m l = Inr l' \<Longrightarrow> \<exists>v. l2m (log_token l) = Some v"
  by (auto simp: attach_map_token_def rbind_Inr_iff)

lemma attach_map_token_token:
  "attach_map_token l2m l = Inr l' \<Longrightarrow> log_token l' = log_token l"
  by (auto simp: attach_map_token_def rbind_Inr_iff)

lemma link_logs_elim:
  assumes "link_logs db = Inr db'"
  obtains map0 lts0 log_to_map logs where
    "subscript (t_map db) 0 = Inr map0" and "map_log_tokens map0 = Some lts0"
    and "build_log_to_map (rows (t_map db)) Map.empty = Inr log_to_map"
    and "mapM_rows (attach_map_token log_to_map) (t_log db) = Inr logs"
    and "db' = db\<lparr>t_log := logs\<rparr>"
  using assms unfolding link_logs_def
  by (auto simp: rbind_Inr_iff split: if_splits)

lemma link_logs_props:
  assumes ll: "link_logs db = Inr db'"
  shows "token2ind db' = token2ind db" and "table_tokens db' = table_tokens db"
    and "t_sample db' = t_sample db" and "t_sample_data db' = t_sample_data db"
    and "t_sample_annotation db' = t_sample_annotation db" and "t_map db' = t_map db"
    and "\<forall>l\<in>set (rows (t_log db)). \<exists>m\<in>set (rows (t_map db)). \<exists>lts.
           map_log_tokens m = Some lts \<and> log_token l \<in> set lts"
proof -
  obtain map0 lts0 log_to_map logs where
    l2m: "build_log_to_map (rows (t_map db)) Map.empty = Inr log_to_map"
    and logs: "mapM_rows (attach_map_token log_to_map) (t_log db) = Inr logs"
    and db': "db' = db\<lparr>t_log := logs\<rparr>"
    by (rule link_logs_elim [OF ll])
  have "map log_token (rows logs) = map log_token (rows (t_log db))"
    by (rule mapM_rows_tokens [OF logs]) (rule attach_map_token_token)
  from table_tokens_upd_log [OF this] db'
  show "table_tokens db' = table_tokens db" by simp
  from db' show "token2ind db' = token2ind db" "t_sample db' = t_sample db"
    "t_sample_data db' = t_sample_data db" "t_sample_annotation db' = t_sample_annotation db"
    "t_map db' = t_map db" by simp_all
  show "\<forall>l\<in>set (rows (t_log db)). \<exists>m\<in>set (rows (t_map db)). \<exists>lts.
           map_log_tokens m = Some lts \<and> log_token l \<in> set lts"
  proof
    fix l assume "l \<in> set (rows (t_log db))"
    from mapM_Inr_all [OF mapM_rows_rows [OF logs] this]
    obtain l' where "attach_map_token log_to_map l = Inr l'" ..
    from attach_map_token_Inr [OF this] obtain v where "log_to_map (log_token l) = Some v" ..
    from build_log_to_map_covered [OF l2m this]
    show "\<exists>m\<in>set (rows (t_map db)). \<exists>lts. map_log_tokens m = Some lts \<and> log_token l \<in> set lts"
      by simp
  qed
qed

section \<open>The small dataset, evaluated\<close>

lemmas demo_defs = demo_raw_def demo_map_def demo_samples_def demo_sample_data_def
  demo_annotations_def

lemmas demo_eval = demo_out_def demo_den_def demo_defs get_def getind_def
  build_token2ind_lookup table_tokens_simps

lemma denormalize_tables_demo:
  "denormalize_tables (demo_raw t1 maps) = Inr (demo_den t1 maps)"
  by (simp add: denormalize_tables_def Let_def
      demo_den_def demo_defs get_def getind_def build_token2ind_lookup table_tokens_simps
      decorate_annotation_def decorate_sample_data_def init_sample_def)

lemma make_reverse_index_demo:
  "make_reverse_index (demo_raw t1 [demo_map]) = Inr (demo_out t1)"
  unfolding make_reverse_index_def denormalize_tables_demo
  by (simp add: link_logs_def
      demo_out_def demo_den_def demo_defs attach_map_token_def)

section \<open>Loading a table: absent and present files\<close>

text \<open>
  Claim C9.  When the file of a table is absent, \<^verbatim>\<open>__load_table__\<close> returns the
  empty dictionary, which holds no records, if missing tables are allowed, and raises
  \<open>FileNotFoundError\<close> otherwise; when the file is present its content is returned
  unchanged.
\<close>

theorem load_table_absent_or_present:
  "(fs (json_path @ [table_name @ ''.json'']) = None \<and> missing_ok \<longrightarrow>
      (load_table fs json_path table_name missing_ok = Inr EmptyDict \<and> rows (EmptyDict :: 'r table) = []))
   \<and> (fs (json_path @ [table_name @ ''.json'']) = None \<and> \<not> missing_ok \<longrightarrow>
      load_table fs json_path table_name missing_ok = Inl FileNotFoundError)
   \<and> (\<forall>table. fs (json_path @ [table_name @ ''.json'']) = Some (table :: 'r table) \<longrightarrow>
      load_table fs json_path table_name missing_ok = Inr table)"
  by (simp add: load_table_def)

theorem load_table_witness:
  "load_table (Map.empty :: path \<rightharpoonup> nat table) [''json''] ''map'' True = Inr EmptyDict
   \<and> load_table (Map.empty :: path \<rightharpoonup> nat table) [''json''] ''map'' False = Inl FileNotFoundError
   \<and> load_table [[''json'', ''map.json''] \<mapsto> Rows [1::nat, 2]] [''json''] ''map'' False = Inr (Rows [1, 2])"
  using load_table_absent_or_present [of "Map.empty :: path \<rightharpoonup> nat table" "[''json'']" "''map''" True]
    load_table_absent_or_present [of "Map.empty :: path \<rightharpoonup> nat table" "[''json'']" "''map''" False]
    load_table_absent_or_present [of "[[''json'', ''map.json''] \<mapsto> Rows [1::nat, 2]]" "[''json'']" "''map''" False]
  by simp

lemma make_reverse_index_elim:
  assumes "make_reverse_index db0 = Inr db"
  obtains db1 where "denormalize_tables db0 = Inr db1" and "link_logs db1 = Inr db"
  using assms by (auto simp: make_reverse_index_def rbind_Inr_iff)

lemma make_reverse_index_indexed:
  assumes "make_reverse_index db0 = Inr db"
  shows "token2ind db = build_token2ind db"
proof -
  obtain db1 where den: "denormalize_tables db0 = Inr db1" and ll: "link_logs db1 = Inr db"
    by (rule make_reverse_index_elim [OF assms])
  from denormalize_tables_props(1) [OF den] link_logs_props(1,2) [OF ll]
    build_token2ind_cong [of db db1]
  show ?thesis by simp
qed

section \<open>The index round trip\<close>

text \<open>
  Claim C1.  After \<^verbatim>\<open>__make_reverse_index__\<close>, in every one of the thirteen tables
  whose tokens are pairwise distinct (the data model's uniqueness of a token within its
  table), \<^verbatim>\<open>get(T, r["token"])\<close> returns \<open>r\<close> for every record \<open>r\<close> of the table.
\<close>

theorem get_token_roundtrip:
  assumes "make_reverse_index db0 = Inr db"
  shows "(distinct (map cat_token (rows (t_category db))) \<longrightarrow>
            (\<forall>r\<in>set (rows (t_category db)). get db ''category'' t_category (cat_token r) = Inr r))
      \<and> (distinct (map attr_token (rows (t_attribute db))) \<longrightarrow>
            (\<forall>r\<in>set (rows (t_attribute db)). get db ''attribute'' t_attribute (attr_token r) = Inr r))
      \<and> (distinct (map vis_token (rows (t_visibility db))) \<longrightarrow>
            (\<forall>r\<in>set (rows (t_visibility db)). get db ''visibility'' t_visibility (vis_token r) = Inr r))
      \<and> (distinct (map inst_token (rows (t_instance db))) \<longrightarrow>
            (\<forall>r\<in>set (rows (t_instance db)). get db ''instance'' t_instance (inst_token r) = Inr r))
      \<and> (distinct (map sensor_token (rows (t_sensor db))) \<longrightarrow>
            (\<forall>r\<in>set (rows (t_sensor db)). get db ''sensor'' t_sensor (sensor_token r) = Inr r))
      \<and> (distinct (map cs_token (rows (t_calibrated_sensor db))) \<longrightarrow>
            (\<forall>r\<in>set (rows (t_calibrated_sensor db)).
               get db ''calibrated_sensor'' t_calibrated_sensor (cs_token r) = Inr r))
      \<and> (distinct (map pose_token (rows (t_ego_pose db))) \<longrightarrow>
            (\<forall>r\<in>set (rows (t_ego_pose db)). get db ''ego_pose'' t_ego_pose (pose_token r) = Inr r))
      \<and> (distinct (map log_token (rows (t_log db))) \<longrightarrow>
            (\<forall>r\<in>set (rows (t_log db)). get db ''log'' t_log (log_token r) = Inr r))
      \<and> (distinct (map scene_token (rows (t_scene db))) \<longrightarrow>
            (\<forall>r\<in>set (rows (t_scene db)). get db ''scene'' t_scene (scene_token r) = Inr r))
      \<and> (distinct (map s_token (rows (t_sample db))) \<longrightarrow>
            (\<forall>r\<in>set (rows (t_sample db)). get db ''sample'' t_sample (s_token r) = Inr r))
      \<and> (distinct (map sd_token (rows (t_sample_data db))) \<longrightarrow>
            (\<forall>r\<in>set (rows (t_sample_data db)).
               get db ''sample_data'' t_sample_data (sd_token r) = Inr r))
      \<and> (distinct (map ann_token (rows (t_sample_annotation db))) \<longrightarrow>
            (\<forall>r\<in>set (rows (t_sample_annotation db)).
               get db ''sample_annotation'' t_sample_annotation (ann_token r) = Inr r))
      \<and> (distinct (map map_token (rows (t_map db))) \<longrightarrow>
            (\<forall>r\<in>set (rows (t_map db)). get db ''map'' t_map (map_token r) = Inr r))"
proof -
  note idx = make_reverse_index_indexed [OF assms]
  note rt = get_roundtrip [OF idx]
  show ?thesis
    by (intro conjI impI ballI rt table_names_simps table_tokens_simps)
qed

section \<open>Key frames behind \<^verbatim>\<open>sample["data"]\<close>\<close>

text \<open>
  Claim C8.  After \<^verbatim>\<open>__make_reverse_index__\<close>, when the tokens of the sample data
  table are pairwise distinct, every token stored in the \<open>data\<close> of a sample is the
  token of a sample data record that is a key frame and names this sample.  Nothing is
  assumed about channels: two key frames of one sample may share a channel.
\<close>

theorem sample_data_of_sample_are_key_frames:
  assumes mri: "make_reverse_index db0 = Inr db"
    and dist: "distinct (map sd_token (rows (t_sample_data db)))"
    and s: "s \<in> set (rows (t_sample db))"
    and data: "s_data s = Some data"
    and tok: "tok \<in> snd ` set data"
  shows "\<exists>sd. get db ''sample_data'' t_sample_data tok = Inr sd
              \<and> sd_is_key_frame sd \<and> sd_sample_token sd = s_token s"
proof -
  obtain db1 where den: "denormalize_tables db0 = Inr db1" and ll: "link_logs db1 = Inr db"
    by (rule make_reverse_index_elim [OF mri])
  from tok obtain p where p: "p \<in> set data" "snd p = tok" by auto
  from link_logs_props(3,4) [OF ll] s have "s \<in> set (rows (t_sample db1))" by simp
  with denormalize_tables_props(4) [OF den] data p(1)
  have "\<exists>r\<in>set (rows (t_sample_data db1)). sd_token r = snd p \<and> sd_is_key_frame r
           \<and> sd_sample_token r = s_token s"
    by simp
  then obtain r where r: "r \<in> set (rows (t_sample_data db))" "sd_token r = tok"
    "sd_is_key_frame r" "sd_sample_token r = s_token s"
    using link_logs_props(4) [OF ll] p(2) by auto
  from get_roundtrip [where attr = t_sample_data and tk = sd_token,
      OF make_reverse_index_indexed [OF mri] table_names_simps(11)
      table_tokens_simps(11) dist r(1)] r
  show ?thesis by auto
qed

theorem get_token_roundtrip_witness:
  "make_reverse_index (demo_raw 2000000 [demo_map]) = Inr (demo_out 2000000)
   \<and> distinct (map ann_token (rows (t_sample_annotation (demo_out 2000000))))
   \<and> get (demo_out 2000000) ''sample_annotation'' t_sample_annotation ''a2''
       = Inr ((demo_annotations ! 1)\<lparr>ann_category_name := Some ''car''\<rparr>)"
proof -
  note mri = make_reverse_index_demo [of 2000000]
  let ?r = "(demo_annotations ! 1)\<lparr>ann_category_name := Some ''car''\<rparr>"
  have d: "distinct (map ann_token (rows (t_sample_annotation (demo_out 2000000))))"
    by (simp add: demo_out_def demo_den_def demo_defs)
  have m: "?r \<in> set (rows (t_sample_annotation (demo_out 2000000)))"
    by (simp add: demo_out_def demo_den_def demo_defs)
  from get_token_roundtrip [OF mri] d
  have "\<forall>r\<in>set (rows (t_sample_annotation (demo_out 2000000))).
          get (demo_out 2000000) ''sample_annotation'' t_sample_annotation (ann_token r) = Inr r"
    by simp
  from this m have "get (demo_out 2000000) ''sample_annotation'' t_sample_annotation (ann_token ?r)
      = Inr ?r" by (rule bspec)
  moreover have "ann_token ?r = ''a2''" by (simp add: demo_defs)
  ultimately show ?thesis using mri d by simp
qed

theorem sample_data_of_sample_are_key_frames_witness:
  "make_reverse_index (demo_raw 2000000 [demo_map]) = Inr (demo_out 2000000)
   \<and> (\<exists>sd. get (demo_out 2000000) ''sample_data'' t_sample_data ''d6'' = Inr sd
          \<and> sd_is_key_frame sd \<and> sd_sample_token sd = ''s2'')"
proof -
  note mri = make_reverse_index_demo [of 2000000]
  let ?s = "\<lparr>s_token = ''s2'', s_timestamp = 2000000, s_prev = ''s1'', s_next = '''',
             s_data = Some [(''LIDAR_TOP'', ''d6''), (''CAM_FRONT'', ''d5'')],
             s_anns = Some [''a2'', ''a3'']\<rparr>"
  have d: "distinct (map sd_token (rows (t_sample_data (demo_out 2000000))))"
    by (simp add: demo_out_def demo_den_def demo_defs)
  have s: "?s \<in> set (rows (t_sample (demo_out 2000000)))"
    by (simp add: demo_out_def demo_den_def demo_defs)
  have data: "s_data ?s = Some [(''LIDAR_TOP'', ''d6''), (''CAM_FRONT'', ''d5'')]" by simp
  have tok: "''d6'' \<in> snd ` set [(''LIDAR_TOP'', ''d6''), (''CAM_FRONT'', ''d5'')]" by simp
  from sample_data_of_sample_are_key_frames [OF mri d s data tok] mri
  show ?thesis by simp
qed

section \<open>Logs without a map\<close>

text \<open>
  Claim C10.  \<^verbatim>\<open>__make_reverse_index__\<close> succeeds only if the token of every log
  record is in the \<open>log_tokens\<close> of some map record.  When the function reaches
  the backlinks from logs to maps (the tables are decorated and the first map record
  carries \<open>log_tokens\<close>) and the token of some log record is in no map's
  \<open>log_tokens\<close>, it raises \<open>KeyError\<close>.
\<close>

theorem uncovered_log_fails:
  "(make_reverse_index db0 = Inr db \<longrightarrow>
      (\<forall>l\<in>set (rows (t_log db0)). \<exists>m\<in>set (rows (t_map db0)). \<exists>lts.
          map_log_tokens m = Some lts \<and> log_token l \<in> set lts))
   \<and> (denormalize_tables db0 = Inr db1 \<and> subscript (t_map db0) 0 = Inr map0
        \<and> map_log_tokens map0 = Some lts0 \<and> l \<in> set (rows (t_log db0))
        \<and> (\<forall>m\<in>set (rows (t_map db0)). \<forall>lts.
              map_log_tokens m = Some lts \<longrightarrow> log_token l \<notin> set lts)
      \<longrightarrow> make_reverse_index db0 = Inl KeyError)"
proof (intro conjI impI)
  assume mri: "make_reverse_index db0 = Inr db"
  obtain db1 where den: "denormalize_tables db0 = Inr db1" and ll: "link_logs db1 = Inr db"
    by (rule make_reverse_index_elim [OF mri])
  from link_logs_props(7) [OF ll] denormalize_tables_props(2,3) [OF den]
  show "\<forall>l\<in>set (rows (t_log db0)). \<exists>m\<in>set (rows (t_map db0)). \<exists>lts.
          map_log_tokens m = Some lts \<and> log_token l \<in> set lts"
    by simp
next
  assume a: "denormalize_tables db0 = Inr db1 \<and> subscript (t_map db0) 0 = Inr map0
        \<and> map_log_tokens map0 = Some lts0 \<and> l \<in> set (rows (t_log db0))
        \<and> (\<forall>m\<in>set (rows (t_map db0)). \<forall>lts.
              map_log_tokens m = Some lts \<longrightarrow> log_token l \<notin> set lts)"
  then have den: "denormalize_tables db0 = Inr db1"
    and m0: "subscript (t_map db0) 0 = Inr map0" "map_log_tokens map0 = Some lts0"
    and l: "l \<in> set (rows (t_log db0))"
    and unc: "\<forall>m\<in>set (rows (t_map db0)). \<forall>lts.
              map_log_tokens m = Some lts \<longrightarrow> log_token l \<notin> set lts"
    by simp_all
  note eqs = denormalize_tables_props(2,3) [OF den]
  have mri: "make_reverse_index db0 = link_logs db1"
    by (simp add: make_reverse_index_def den)
  show "make_reverse_index db0 = Inl KeyError"
  proof (cases "build_log_to_map (rows (t_map db0)) Map.empty")
    case (Inl e)
    with build_log_to_map_Inl [OF Inl] m0 eqs show ?thesis
      by (simp add: mri link_logs_def)
  next
    case (Inr l2m)
    have none: "l2m (log_token l) = None"
    proof (cases "l2m (log_token l)")
      case None
      then show ?thesis .
    next
      case (Some v)
      from build_log_to_map_covered [OF Inr Some] unc show ?thesis by auto
    qed
    then have fail: "attach_map_token l2m l = Inl KeyError"
      by (simp add: attach_map_token_def)
    have "mapM_rows (attach_map_token l2m) (t_log db0) = Inl KeyError"
    proof (cases "mapM_rows (attach_map_token l2m) (t_log db0)")
      case (Inl e)
      from l obtain xs where xs: "t_log db0 = Rows xs" by (cases "t_log db0") auto
      with Inl have "mapM (attach_map_token l2m) xs = Inl e"
        by (simp add: rbind_def split: sum.splits)
      from mapM_Inl [OF this] obtain x where "attach_map_token l2m x = Inl e" by auto
      from attach_map_token_Inl [OF this] Inl show ?thesis by simp
    next
      case (Inr logs)
      from mapM_Inr_all [OF mapM_rows_rows [OF Inr] l] fail show ?thesis by simp
    qed
    with Inr m0 eqs show ?thesis
      by (simp add: mri link_logs_def)
  qed
qed

theorem uncovered_log_fails_witness:
  "make_reverse_index (demo_raw 2000000 [demo_map]) = Inr (demo_out 2000000)
   \<and> (\<exists>m\<in>set [demo_map]. \<exists>lts. map_log_tokens m = Some lts \<and> ''l1'' \<in> set lts)
   \<and> denormalize_tables (demo_raw 2000000 [unlinked_map]) = Inr (demo_den 2000000 [unlinked_map])
   \<and> make_reverse_index (demo_raw 2000000 [unlinked_map]) = Inl KeyError"
proof -
  note mri = make_reverse_index_demo [of 2000000]
  let ?l = "\<lparr>log_token = ''l1'', log_map_token = None\<rparr>"
  from uncovered_log_fails [of "demo_raw 2000000 [demo_map]" "demo_out 2000000"] mri
  have "\<forall>l\<in>set (rows (t_log (demo_raw 2000000 [demo_map]))).
          \<exists>m\<in>set (rows (t_map (demo_raw 2000000 [demo_map]))). \<exists>lts.
          map_log_tokens m = Some lts \<and> log_token l \<in> set lts"
    by simp
  then have a: "\<exists>m\<in>set [demo_map]. \<exists>lts. map_log_tokens m = Some lts \<and> ''l1'' \<in> set lts"
    by (simp add: demo_raw_def)
  note den = denormalize_tables_demo [of 2000000 "[unlinked_map]"]
  have "make_reverse_index (demo_raw 2000000 [unlinked_map]) = Inl KeyError"
    using uncovered_log_fails [of "demo_raw 2000000 [unlinked_map]" _
        "demo_den 2000000 [unlinked_map]" unlinked_map "[]" ?l] den
    by (simp add: demo_raw_def unlinked_map_def)
  with mri a den show ?thesis by simp
qed

section \<open>Map records without \<open>log_tokens\<close>\<close>

text \<open>
  Claim C7, as the code has it.  When some map record lacks \<open>log_tokens\<close>,
  \<^verbatim>\<open>__make_reverse_index__\<close> raises, so no query is possible.  The exception is the
  compatibility error when the tables are decorated and the first map record lacks
  the field: the test reads \<^verbatim>\<open>self.map[0]\<close> only.  When the first map record
  carries the field and a later one lacks it, the exception is the \<open>KeyError\<close> of
  \<^verbatim>\<open>map_record["log_tokens"]\<close>.
\<close>

theorem map_without_log_tokens_fails:
  "(m \<in> set (rows (t_map db0)) \<and> map_log_tokens m = None \<longrightarrow>
      (\<exists>e. make_reverse_index db0 = Inl e))
   \<and> (denormalize_tables db0 = Inr db1 \<and> subscript (t_map db0) 0 = Inr map0
        \<and> map_log_tokens map0 = None
      \<longrightarrow> make_reverse_index db0 = Inl CompatibilityError)
   \<and> (denormalize_tables db0 = Inr db1 \<and> subscript (t_map db0) 0 = Inr map0
        \<and> map_log_tokens map0 = Some lts0
        \<and> m \<in> set (rows (t_map db0)) \<and> map_log_tokens m = None
      \<longrightarrow> make_reverse_index db0 = Inl KeyError)"
proof -
  have first: "make_reverse_index db0 = Inl CompatibilityError"
    if "denormalize_tables db0 = Inr db1" "subscript (t_map db0) 0 = Inr map0"
      "map_log_tokens map0 = None" for db1 map0
    using that denormalize_tables_props(2) [OF that(1)]
    by (simp add: make_reverse_index_def link_logs_def)
  have later: "make_reverse_index db0 = Inl KeyError"
    if "denormalize_tables db0 = Inr db1" "subscript (t_map db0) 0 = Inr map0"
      "map_log_tokens map0 = Some lts0" "m \<in> set (rows (t_map db0))" "map_log_tokens m = None"
    for db1 map0 lts0
    using that denormalize_tables_props(2) [OF that(1)]
      build_log_to_map_lacking [OF that(4,5), of Map.empty]
    by (simp add: make_reverse_index_def link_logs_def)
  have any: "\<exists>e. make_reverse_index db0 = Inl e"
    if m: "m \<in> set (rows (t_map db0))" "map_log_tokens m = None"
  proof (cases "denormalize_tables db0")
    case (Inl e)
    then show ?thesis by (simp add: make_reverse_index_def)
  next
    case (Inr db1)
    from m(1) have "0 < length (rows (t_map db0))" by (cases "rows (t_map db0)") auto
    from subscript_rows [OF this]
    have m0: "subscript (t_map db0) 0 = Inr (rows (t_map db0) ! 0)" .
    show ?thesis
    proof (cases "map_log_tokens (rows (t_map db0) ! 0)")
      case None
      from first [OF Inr m0 None] show ?thesis by simp
    next
      case (Some lts0)
      from later [OF Inr m0 Some m] show ?thesis by simp
    qed
  qed
  from first later any show ?thesis by blast
qed

theorem map_without_log_tokens_counterexample:
  "legacy_map \<in> set (rows (t_map (demo_raw 2000000 [demo_map, legacy_map])))
   \<and> map_log_tokens legacy_map = None
   \<and> make_reverse_index (demo_raw 2000000 [demo_map, legacy_map]) = Inl KeyError
   \<and> make_reverse_index (demo_raw 2000000 [demo_map, legacy_map]) \<noteq> Inl CompatibilityError"
proof -
  have "make_reverse_index (demo_raw 2000000 [demo_map, legacy_map]) = Inl KeyError"
    unfolding make_reverse_index_def denormalize_tables_demo
    by (simp add: link_logs_def demo_den_def demo_defs legacy_map_def)
  then show ?thesis by (simp add: demo_raw_def legacy_map_def)
qed

theorem map_without_log_tokens_witness:
  "(\<exists>e. make_reverse_index (demo_raw 2000000 [demo_map, legacy_map]) = Inl e)
   \<and> make_reverse_index (demo_raw 2000000 [legacy_map, demo_map]) = Inl CompatibilityError
   \<and> make_reverse_index (demo_raw 2000000 [demo_map, legacy_map]) = Inl KeyError"
proof -
  have none: "map_log_tokens legacy_map = None" by (simp add: legacy_map_def)
  have some: "map_log_tokens demo_map = Some [''l1'']" by (simp add: demo_map_def)
  have mem: "legacy_map \<in> set (rows (t_map (demo_raw 2000000 [demo_map, legacy_map])))"
    by (simp add: demo_raw_def)
  have s1: "subscript (t_map (demo_raw 2000000 [legacy_map, demo_map])) 0 = Inr legacy_map"
    by (simp add: demo_raw_def)
  have s2: "subscript (t_map (demo_raw 2000000 [demo_map, legacy_map])) 0 = Inr demo_map"
    by (simp add: demo_raw_def)
  note t1 = map_without_log_tokens_fails
    [of legacy_map "demo_raw 2000000 [demo_map, legacy_map]"
        "demo_den 2000000 [demo_map, legacy_map]" demo_map "[''l1'']"]
  note t2 = map_without_log_tokens_fails
    [of legacy_map "demo_raw 2000000 [legacy_map, demo_map]"
        "demo_den 2000000 [legacy_map, demo_map]" legacy_map "[]"]
  from t1 none some mem s2 denormalize_tables_demo [of 2000000 "[demo_map, legacy_map]"]
  have a: "(\<exists>e. make_reverse_index (demo_raw 2000000 [demo_map, legacy_map]) = Inl e)
    \<and> make_reverse_index (demo_raw 2000000 [demo_map, legacy_map]) = Inl KeyError"
    by simp
  from t2 none s1 denormalize_tables_demo [of 2000000 "[legacy_map, demo_map]"]
  have b: "make_reverse_index (demo_raw 2000000 [legacy_map, demo_map]) = Inl CompatibilityError"
    by simp
  from a b show ?thesis by simp
qed

lemma fold_upd_key_notin:
  "k \<notin> f ` set xs \<Longrightarrow> fold (\<lambda>e m. m(f e \<mapsto> e)) xs m0 k = m0 k"
  by (induction xs arbitrary: m0) auto

lemma fold_upd_key_distinct:
  "distinct (map f xs) \<Longrightarrow> p \<in> set xs \<Longrightarrow> fold (\<lambda>e m. m(f e \<mapsto> e)) xs m0 (f p) = Some p"
proof (induction xs arbitrary: m0)
  case Nil
  then show ?case by simp
next
  case (Cons a xs)
  show ?case
  proof (cases "p = a")
    case True
    from Cons.prems(1) have "f a \<notin> f ` set xs" by simp
    from fold_upd_key_notin [OF this, of "m0(f a \<mapsto> a)"] True
    show ?thesis by (simp del: fun_upd_apply) simp
  next
    case False
    with Cons show ?thesis by simp
  qed
qed

lemma get_box_Inr:
  assumes "get_box db a = Inr b" and "get db ''sample_annotation'' t_sample_annotation a = Inr r"
  shows "box_center b = ann_translation r \<and> box_size b = ann_size r
       \<and> box_orientation b = ann_rotation r \<and> box_token b = ann_token r
       \<and> ann_category_name r = Some (box_name b)"
  using assms by (auto simp: get_box_def rbind_Inr_iff)

section \<open>Boxes of a key frame\<close>

text \<open>
  Claim C4.  For a capture \<open>D\<close> of sample \<open>S\<close> that is a key frame, or whose sample
  has no previous sample, \<^verbatim>\<open>get_boxes\<close> is \<^verbatim>\<open>get_box\<close> mapped over the annotation
  tokens of \<open>S\<close>, in order; the external geometry \<open>E\<close> plays no part, and every
  box returned carries the translation, size and rotation of its annotation record.
\<close>

theorem get_boxes_key_frame:
  assumes D: "get db ''sample_data'' t_sample_data tok = Inr D"
    and S: "get db ''sample'' t_sample (sd_sample_token D) = Inr S"
    and key: "sd_is_key_frame D \<or> s_prev S = ''''"
    and anns: "s_anns S = Some anns"
  shows "get_boxes E db tok = mapM (get_box db) anns
       \<and> (\<forall>boxes. get_boxes E db tok = Inr boxes \<longrightarrow>
            length boxes = length anns
            \<and> (\<forall>i<length anns. \<forall>r.
                  get db ''sample_annotation'' t_sample_annotation (anns ! i) = Inr r \<longrightarrow>
                  box_center (boxes ! i) = ann_translation r
                  \<and> box_size (boxes ! i) = ann_size r
                  \<and> box_orientation (boxes ! i) = ann_rotation r
                  \<and> box_token (boxes ! i) = ann_token r))"
proof -
  from key have eq: "get_boxes E db tok = mapM (get_box db) anns"
    by (auto simp: get_boxes_def D S anns)
  have "length boxes = length anns
            \<and> (\<forall>i<length anns. \<forall>r.
                  get db ''sample_annotation'' t_sample_annotation (anns ! i) = Inr r \<longrightarrow>
                  box_center (boxes ! i) = ann_translation r
                  \<and> box_size (boxes ! i) = ann_size r
                  \<and> box_orientation (boxes ! i) = ann_rotation r
                  \<and> box_token (boxes ! i) = ann_token r)"
    if "get_boxes E db tok = Inr boxes" for boxes
  proof -
    from that eq have m: "mapM (get_box db) anns = Inr boxes" by simp
    from mapM_Inr_nth [OF m] get_box_Inr mapM_Inr_length [OF m]
    show ?thesis by blast
  qed
  with eq show ?thesis by blast
qed

theorem get_boxes_key_frame_witness:
  "get (demo_out 2000000) ''sample_data'' t_sample_data ''d2''
      = Inr (rows (t_sample_data (demo_out 2000000)) ! 1)
   \<and> sd_is_key_frame (rows (t_sample_data (demo_out 2000000)) ! 1)
   \<and> get_boxes demo_ext (demo_out 2000000) ''d2'' =
       Inr [\<lparr>box_center = [2, 0, 0], box_size = [2, 4, 1], box_orientation = [0, 0, 0, 1],
             box_name = ''car'', box_token = ''a2''\<rparr>,
            \<lparr>box_center = [5, 5, 0], box_size = [1, 1, 2], box_orientation = [1, 0, 0, 0],
             box_name = ''car'', box_token = ''a3''\<rparr>]"
proof -
  let ?db = "demo_out 2000000"
  let ?D = "rows (t_sample_data ?db) ! 1"
  let ?S = "rows (t_sample ?db) ! 1"
  have D: "get ?db ''sample_data'' t_sample_data ''d2'' = Inr ?D"
    by (simp add: demo_out_def demo_den_def demo_defs get_def getind_def
        build_token2ind_lookup table_tokens_simps)
  have S: "get ?db ''sample'' t_sample (sd_sample_token ?D) = Inr ?S"
    by (simp add: demo_out_def demo_den_def demo_defs get_def getind_def
        build_token2ind_lookup table_tokens_simps)
  have key: "sd_is_key_frame ?D"
    by (simp add: demo_out_def demo_den_def demo_defs)
  then have key': "sd_is_key_frame ?D \<or> s_prev ?S = ''''" by simp
  have anns: "s_anns ?S = Some [''a2'', ''a3'']"
    by (simp add: demo_out_def demo_den_def demo_defs)
  from get_boxes_key_frame [OF D S key' anns, of demo_ext]
  have "get_boxes demo_ext ?db ''d2'' = mapM (get_box ?db) [''a2'', ''a3'']" by simp
  also have "\<dots> = Inr [\<lparr>box_center = [2, 0, 0], box_size = [2, 4, 1], box_orientation = [0, 0, 0, 1],
             box_name = ''car'', box_token = ''a2''\<rparr>,
            \<lparr>box_center = [5, 5, 0], box_size = [1, 1, 2], box_orientation = [1, 0, 0, 0],
             box_name = ''car'', box_token = ''a3''\<rparr>]"
    by (simp add: get_box_def demo_out_def demo_den_def demo_defs get_def getind_def
        build_token2ind_lookup table_tokens_simps)
  finally show ?thesis using D key by simp
qed

section \<open>The degenerate interval\<close>

text \<open>
  Claim C3 asks that an intermediate capture whose current and previous samples
  carry the same timestamp gets the current annotations back.  The code divides by
  \<open>t1 - t0\<close> without a guard: on the small dataset with both samples stamped
  \<open>1000000\<close>, \<^verbatim>\<open>get_boxes\<close> raises \<open>ZeroDivisionError\<close> for the capture \<open>d3\<close>.
\<close>

theorem get_boxes_equal_timestamps_raises:
  "make_reverse_index (demo_raw 1000000 [demo_map]) = Inr (demo_out 1000000)
   \<and> get_boxes demo_ext (demo_out 1000000) ''d3'' = Inl ZeroDivisionError"
proof -
  have "get_boxes demo_ext (demo_out 1000000) ''d3'' = Inl ZeroDivisionError"
    by (simp add: get_boxes_def demo_out_def demo_den_def demo_defs get_def getind_def
      build_token2ind_lookup table_tokens_simps interpolate_box_def py_div_def get_box_def)
  with make_reverse_index_demo [of 1000000] show ?thesis by simp
qed

section \<open>Boxes of a capture in the sensor frame\<close>

lemma collect_boxes_filter:
  "collect_boxes E sensor_record pose_record cs_record flat cam_intrinsic imsize vis boxes =
     filter (\<lambda>b. \<not> (sensor_modality sensor_record = ''camera''
                     \<and> \<not> box_in_image E b cam_intrinsic imsize vis))
       (map (to_sensor_frame E pose_record cs_record flat) boxes)"
  by (induction boxes) (simp_all add: Let_def)

text \<open>
  Claim C6.  Let the records of the capture, its calibrated sensor, sensor and ego
  pose be resolved, and \<open>boxes\<close> be the boxes resolved for the capture (from the
  selected annotation tokens, or from \<^verbatim>\<open>get_boxes\<close>).  When the sensor is not a
  camera, the output holds every box, moved to the target frame, and the intrinsic is
  \<open>None\<close>.  When the sensor is a camera, the output holds, in order, exactly the
  moved boxes that pass \<^verbatim>\<open>box_in_image\<close> for the camera intrinsic, the image size
  and the requested visibility level, and the intrinsic is the camera's.
\<close>

theorem get_sample_data_boxes:
  assumes sd: "get db ''sample_data'' t_sample_data tok = Inr sd_record"
    and cs: "get db ''calibrated_sensor'' t_calibrated_sensor
               (sd_calibrated_sensor_token sd_record) = Inr cs_record"
    and sensor: "get db ''sensor'' t_sensor (cs_sensor_token cs_record) = Inr sensor_record"
    and pose: "get db ''ego_pose'' t_ego_pose (sd_ego_pose_token sd_record) = Inr pose_record"
    and boxes: "(case selected_anntokens of
                   Some tokens \<Rightarrow> mapM (get_box db) tokens
                 | None \<Rightarrow> get_boxes E db tok) = Inr boxes"
  shows "(sensor_modality sensor_record \<noteq> ''camera'' \<longrightarrow>
            get_sample_data E data_path db tok vis selected_anntokens flat =
              Inr (data_path @ [sd_filename sd_record],
                   map (to_sensor_frame E pose_record cs_record flat) boxes,
                   None))
       \<and> (sensor_modality sensor_record = ''camera'' \<longrightarrow>
            get_sample_data E data_path db tok vis selected_anntokens flat =
              Inr (data_path @ [sd_filename sd_record],
                   filter (\<lambda>b. box_in_image E b (Some (cs_camera_intrinsic cs_record))
                                  (Some (sd_width sd_record, sd_height sd_record)) vis)
                     (map (to_sensor_frame E pose_record cs_record flat) boxes),
                   Some (cs_camera_intrinsic cs_record)))"
  by (simp add: get_sample_data_def get_sample_data_path_def sd cs sensor pose boxes
      collect_boxes_filter)

theorem get_sample_data_boxes_witness:
  "get_sample_data demo_ext [''data''] (demo_out 2000000) ''d2'' () None False =
     Inr ([''data'', ''lidar2.bin''],
          [\<lparr>box_center = [- 1, - 20, - 2], box_size = [2, 4, 1],
            box_orientation = [0, 0, 0, 1], box_name = ''car'', box_token = ''a2''\<rparr>,
           \<lparr>box_center = [2, - 15, - 2], box_size = [1, 1, 2],
            box_orientation = [1, 0, 0, 0], box_name = ''car'', box_token = ''a3''\<rparr>],
          None)
   \<and> get_sample_data demo_ext [''data''] (demo_out 2000000) ''d5'' () None False =
     Inr ([''data'', ''cam5.jpg''],
          [\<lparr>box_center = [1, - 15, - 2], box_size = [1, 1, 2],
            box_orientation = [1, 0, 0, 0], box_name = ''car'', box_token = ''a3''\<rparr>],
          Some [[1, 0, 0], [0, 1, 0], [0, 0, 1]])"
proof -
  let ?db = "demo_out 2000000"
  let ?d2 = "rows (t_sample_data ?db) ! Suc 0" and ?d5 = "rows (t_sample_data ?db) ! 4"
  let ?cs1 = "rows (t_calibrated_sensor ?db) ! 0" and ?cs2 = "rows (t_calibrated_sensor ?db) ! Suc 0"
  let ?sn1 = "rows (t_sensor ?db) ! 0" and ?sn2 = "rows (t_sensor ?db) ! Suc 0"
  let ?p = "rows (t_ego_pose ?db) ! 0"
  let ?boxes = "[\<lparr>box_center = [2, 0, 0], box_size = [2, 4, 1], box_orientation = [0, 0, 0, 1],
             box_name = ''car'', box_token = ''a2''\<rparr>,
            \<lparr>box_center = [5, 5, 0], box_size = [1, 1, 2], box_orientation = [1, 0, 0, 0],
             box_name = ''car'', box_token = ''a3''\<rparr>]"
  have sd2: "get ?db ''sample_data'' t_sample_data ''d2'' = Inr ?d2"
    and cs2: "get ?db ''calibrated_sensor'' t_calibrated_sensor
               (sd_calibrated_sensor_token ?d2) = Inr ?cs2"
    and sn2: "get ?db ''sensor'' t_sensor (cs_sensor_token ?cs2) = Inr ?sn2"
    and p2: "get ?db ''ego_pose'' t_ego_pose (sd_ego_pose_token ?d2) = Inr ?p"
    and sd5: "get ?db ''sample_data'' t_sample_data ''d5'' = Inr ?d5"
    and cs5: "get ?db ''calibrated_sensor'' t_calibrated_sensor
               (sd_calibrated_sensor_token ?d5) = Inr ?cs1"
    and sn5: "get ?db ''sensor'' t_sensor (cs_sensor_token ?cs1) = Inr ?sn1"
    and p5: "get ?db ''ego_pose'' t_ego_pose (sd_ego_pose_token ?d5) = Inr ?p"
    by (simp_all add: demo_eval)
  have b2: "(case None of Some tokens \<Rightarrow> mapM (get_box ?db) tokens
             | None \<Rightarrow> get_boxes demo_ext ?db ''d2'') = Inr ?boxes"
    and b5: "(case None of Some tokens \<Rightarrow> mapM (get_box ?db) tokens
             | None \<Rightarrow> get_boxes demo_ext ?db ''d5'') = Inr ?boxes"
    by (simp_all add: get_boxes_def get_box_def demo_eval)
  have lidar: "sensor_modality ?sn2 \<noteq> ''camera''" and camera: "sensor_modality ?sn1 = ''camera''"
    by (simp_all add: demo_out_def demo_den_def demo_defs)
  from get_sample_data_boxes [OF sd2 cs2 sn2 p2 b2, of "[''data'']" "()" False] lidar
  have "get_sample_data demo_ext [''data''] ?db ''d2'' () None False =
      Inr ([''data''] @ [sd_filename ?d2], map (to_sensor_frame demo_ext ?p ?cs2 False) ?boxes, None)"
    by simp
  then have a: "get_sample_data demo_ext [''data''] ?db ''d2'' () None False =
     Inr ([''data'', ''lidar2.bin''],
          [\<lparr>box_center = [- 1, - 20, - 2], box_size = [2, 4, 1],
            box_orientation = [0, 0, 0, 1], box_name = ''car'', box_token = ''a2''\<rparr>,
           \<lparr>box_center = [2, - 15, - 2], box_size = [1, 1, 2],
            box_orientation = [1, 0, 0, 0], box_name = ''car'', box_token = ''a3''\<rparr>],
          None)"
    by (simp add: to_sensor_frame_def demo_ext_def demo_out_def demo_den_def demo_defs)
  from get_sample_data_boxes [OF sd5 cs5 sn5 p5 b5, of "[''data'']" "()" False] camera
  have "get_sample_data demo_ext [''data''] ?db ''d5'' () None False =
      Inr ([''data''] @ [sd_filename ?d5],
           filter (\<lambda>b. box_in_image demo_ext b (Some (cs_camera_intrinsic ?cs1))
                          (Some (sd_width ?d5, sd_height ?d5)) ())
             (map (to_sensor_frame demo_ext ?p ?cs1 False) ?boxes),
           Some (cs_camera_intrinsic ?cs1))"
    by simp
  then have b: "get_sample_data demo_ext [''data''] ?db ''d5'' () None False =
     Inr ([''data'', ''cam5.jpg''],
          [\<lparr>box_center = [1, - 15, - 2], box_size = [1, 1, 2],
            box_orientation = [1, 0, 0, 0], box_name = ''car'', box_token = ''a3''\<rparr>],
          Some [[1, 0, 0], [0, 1, 0], [0, 0, 1]])"
    by (simp add: to_sensor_frame_def demo_ext_def demo_out_def demo_den_def demo_defs)
  from a b show ?thesis by simp
qed

lemma get_boxes_interpolating:
  assumes "get db ''sample_data'' t_sample_data tok = Inr D"
    and "get db ''sample'' t_sample (sd_sample_token D) = Inr S"
    and "\<not> sd_is_key_frame D" and "s_prev S \<noteq> ''''"
    and "get db ''sample'' t_sample (s_prev S) = Inr P"
    and "s_anns S = Some curr_anns"
    and "mapM (get db ''sample_annotation'' t_sample_annotation) curr_anns = Inr curr_recs"
    and "s_anns P = Some prev_anns"
    and "mapM (get db ''sample_annotation'' t_sample_annotation) prev_anns = Inr prev_recs"
  shows "get_boxes E db tok =
           mapM (interpolate_box E db
                   (fold (\<lambda>entry m. m(ann_instance_token entry \<mapsto> entry)) prev_recs Map.empty)
                   (s_timestamp P) (s_timestamp S)
                   (max (s_timestamp P) (min (s_timestamp S) (sd_timestamp D))))
             curr_recs"
  by (simp add: get_boxes_def assms Let_def)

lemma map_fst_zip_eq: "length xs = length ys \<Longrightarrow> map (\<lambda>(a, b). a) (zip xs ys) = xs"
  by (induction xs ys rule: list_induct2) simp_all

lemma map_snd_zip_eq: "length xs = length ys \<Longrightarrow> map (\<lambda>(a, b). b) (zip xs ys) = ys"
  by (induction xs ys rule: list_induct2) simp_all

section \<open>Clamping of the capture time\<close>

text \<open>
  Claim C2, as the code has it.  Let \<open>D\<close> be an intermediate capture of sample
  \<open>S\<close> with previous sample \<open>P\<close>, \<open>P\<close> stamped before \<open>S\<close>, and let the
  \<open>i\<close>-th annotation of \<open>S\<close> and the annotation \<open>p\<close> of \<open>P\<close> be of the same
  instance (annotated once in \<open>P\<close>), with translations of the same length.  If
  \<open>D\<close> is stamped at or before \<open>P\<close>, the \<open>i\<close>-th box returned has the
  translation of \<open>p\<close>, and its rotation is \<^verbatim>\<open>slerp\<close> of the two rotations at the
  parameter 0; if \<open>D\<close> is stamped at or after \<open>S\<close>, the box has the translation
  of the annotation of \<open>S\<close>, and its rotation is \<^verbatim>\<open>slerp\<close> at the parameter 1.
  What \<^verbatim>\<open>slerp\<close> returns at the two ends is the quaternion library's: on the shorter
  arc it is the negated rotation of \<open>p\<close> when the two rotations have a negative dot
  product.  \<^verbatim>\<open>np.interp\<close> is assumed to return its end values at \<open>x0\<close> and \<open>x1\<close>.
\<close>

theorem get_boxes_clamped:
  assumes D: "get db ''sample_data'' t_sample_data tok = Inr D"
    and S: "get db ''sample'' t_sample (sd_sample_token D) = Inr S"
    and nokey: "\<not> sd_is_key_frame D" and prev: "s_prev S \<noteq> ''''"
    and P: "get db ''sample'' t_sample (s_prev S) = Inr P"
    and order: "s_timestamp P < s_timestamp S"
    and canns: "s_anns S = Some curr_anns"
    and crecs: "mapM (get db ''sample_annotation'' t_sample_annotation) curr_anns = Inr curr_recs"
    and panns: "s_anns P = Some prev_anns"
    and precs: "mapM (get db ''sample_annotation'' t_sample_annotation) prev_anns = Inr prev_recs"
    and once: "distinct (map ann_instance_token prev_recs)"
    and boxes: "get_boxes E db tok = Inr boxes"
    and i: "i < length curr_recs"
    and p: "p \<in> set prev_recs"
    and inst: "ann_instance_token p = ann_instance_token (curr_recs ! i)"
    and len: "length (ann_translation p) = length (ann_translation (curr_recs ! i))"
    and interp: "\<forall>x0 x1 f0 f1. x0 < x1 \<longrightarrow>
                   np_interp E x0 (x0, x1) (f0, f1) = f0 \<and> np_interp E x1 (x0, x1) (f0, f1) = f1"
  shows "(sd_timestamp D \<le> s_timestamp P \<longrightarrow>
            box_center (boxes ! i) = ann_translation p
            \<and> box_orientation (boxes ! i)
                = slerp E (ann_rotation p) (ann_rotation (curr_recs ! i)) 0)
       \<and> (s_timestamp S \<le> sd_timestamp D \<longrightarrow>
            box_center (boxes ! i) = ann_translation (curr_recs ! i)
            \<and> box_orientation (boxes ! i)
                = slerp E (ann_rotation p) (ann_rotation (curr_recs ! i)) 1)"
proof -
  let ?lo = "s_timestamp P" and ?hi = "s_timestamp S"
  let ?t = "max ?lo (min ?hi (sd_timestamp D))"
  let ?pim = "fold (\<lambda>entry m. m(ann_instance_token entry \<mapsto> entry)) prev_recs Map.empty"
  let ?c = "curr_recs ! i"
  from get_boxes_interpolating [OF D S nokey prev P canns crecs panns precs, of E] boxes
  have "mapM (interpolate_box E db ?pim ?lo ?hi ?t) curr_recs = Inr boxes" by simp
  from mapM_Inr_nth [OF this i]
  have b: "interpolate_box E db ?pim ?lo ?hi ?t ?c = Inr (boxes ! i)" .
  from fold_upd_key_distinct [OF once p, of Map.empty] inst
  have pim: "?pim (ann_instance_token ?c) = Some p" by simp
  from order have nz: "?hi - ?lo \<noteq> 0" by simp
  let ?mk = "\<lambda>name.
       \<lparr>box_center = map (\<lambda>(c0, c1). np_interp E ?t (?lo, ?hi) (c0, c1))
                        (zip (ann_translation p) (ann_translation ?c)),
        box_size = ann_size ?c,
        box_orientation = slerp E (ann_rotation p) (ann_rotation ?c) ((?t - ?lo) / (?hi - ?lo)),
        box_name = name, box_token = ann_token ?c\<rparr>"
  from pim nz have ib: "interpolate_box E db ?pim ?lo ?hi ?t ?c
      = rbind (field (ann_category_name ?c)) (\<lambda>name. Inr (?mk name))"
    by (simp add: interpolate_box_def py_div_def Let_def)
  obtain name where nm: "ann_category_name ?c = Some name"
  proof (cases "ann_category_name ?c")
    case None
    with ib b show ?thesis by simp
  next
    case (Some n)
    then show ?thesis by (rule that)
  qed
  from ib b nm have e: "?mk name = boxes ! i" by simp
  from arg_cong [OF e, of box_center] arg_cong [OF e, of box_orientation]
  have bx: "box_center (boxes ! i) = map (\<lambda>(c0, c1). np_interp E ?t (?lo, ?hi) (c0, c1))
                        (zip (ann_translation p) (ann_translation ?c))"
    "box_orientation (boxes ! i)
       = slerp E (ann_rotation p) (ann_rotation ?c) ((?t - ?lo) / (?hi - ?lo))"
    by simp_all
  have lower: "box_center (boxes ! i) = ann_translation p
            \<and> box_orientation (boxes ! i) = slerp E (ann_rotation p) (ann_rotation ?c) 0"
    if "sd_timestamp D \<le> ?lo"
  proof -
    from that order have t: "?t = ?lo" by simp
    from interp order have "\<And>c0 c1. np_interp E ?lo (?lo, ?hi) (c0, c1) = c0" by simp
    with bx t len show ?thesis by (simp add: map_fst_zip_eq)
  qed
  have upper: "box_center (boxes ! i) = ann_translation ?c
            \<and> box_orientation (boxes ! i) = slerp E (ann_rotation p) (ann_rotation ?c) 1"
    if "?hi \<le> sd_timestamp D"
  proof -
    from that order have t: "?t = ?hi" by simp
    from interp order have "\<And>c0 c1. np_interp E ?hi (?lo, ?hi) (c0, c1) = c1" by simp
    with bx t len nz show ?thesis by (simp add: map_snd_zip_eq)
  qed
  from lower upper show ?thesis by blast
qed

lemmas flip_eval = flip_out_def flip_raw_def flip_rotation_def demo_eval

lemma make_reverse_index_flip: "make_reverse_index flip_raw = Inr flip_out"
  by (simp add: make_reverse_index_def denormalize_tables_def link_logs_def Let_def
      flip_eval decorate_annotation_def decorate_sample_data_def init_sample_def
      attach_map_token_def)

lemma arc_ext_interp:
  "\<forall>x0 x1 f0 f1. x0 < x1 \<longrightarrow>
      np_interp arc_ext x0 (x0, x1) (f0, f1) = f0 \<and> np_interp arc_ext x1 (x0, x1) (f0, f1) = f1"
  by (simp add: arc_ext_def demo_ext_def)

lemma flip_D3: "get flip_out ''sample_data'' t_sample_data ''d3''
    = Inr (rows (t_sample_data flip_out) ! 2)"
  by (simp add: flip_eval)

lemma flip_D4: "get flip_out ''sample_data'' t_sample_data ''d4''
    = Inr (rows (t_sample_data flip_out) ! 3)"
  by (simp add: flip_eval)

lemma flip_S3: "get flip_out ''sample'' t_sample
     (sd_sample_token (rows (t_sample_data flip_out) ! 2))
    = Inr (rows (t_sample flip_out) ! 1)"
  by (simp add: flip_eval)

lemma flip_S4: "get flip_out ''sample'' t_sample
     (sd_sample_token (rows (t_sample_data flip_out) ! 3))
    = Inr (rows (t_sample flip_out) ! 1)"
  by (simp add: flip_eval)

lemma flip_P: "get flip_out ''sample'' t_sample (s_prev (rows (t_sample flip_out) ! 1))
    = Inr (rows (t_sample flip_out) ! 0)"
  by (simp add: flip_eval)

lemma flip_curr_recs:
  "mapM (get flip_out ''sample_annotation'' t_sample_annotation) [''a2'', ''a3'']
    = Inr [rows (t_sample_annotation flip_out) ! 1, rows (t_sample_annotation flip_out) ! 2]"
  by (simp add: flip_eval)

lemma flip_prev_recs:
  "mapM (get flip_out ''sample_annotation'' t_sample_annotation) [''a1'']
    = Inr [rows (t_sample_annotation flip_out) ! 0]"
  by (simp add: flip_eval)

lemma flip_boxes_d3:
  "get_boxes arc_ext flip_out ''d3'' =
     Inr [\<lparr>box_center = [0, 0, 0], box_size = [2, 4, 1], box_orientation = [1, 0, 0, 0],
           box_name = ''car'', box_token = ''a2''\<rparr>,
          \<lparr>box_center = [5, 5, 0], box_size = [1, 1, 2], box_orientation = [1, 0, 0, 0],
           box_name = ''car'', box_token = ''a3''\<rparr>]"
  by (simp add: get_boxes_def flip_eval interpolate_box_def py_div_def get_box_def
      arc_ext_def demo_ext_def slerp_shortest_arc_def)

lemma flip_boxes_d4:
  "get_boxes arc_ext flip_out ''d4'' =
     Inr [\<lparr>box_center = [2, 0, 0], box_size = [2, 4, 1], box_orientation = [1, 0, 0, 0],
           box_name = ''car'', box_token = ''a2''\<rparr>,
          \<lparr>box_center = [5, 5, 0], box_size = [1, 1, 2], box_orientation = [1, 0, 0, 0],
           box_name = ''car'', box_token = ''a3''\<rparr>]"
  by (simp add: get_boxes_def flip_eval interpolate_box_def py_div_def get_box_def
      arc_ext_def demo_ext_def slerp_shortest_arc_def)

text \<open>
  The claim as stated fails for a slerp on the shorter arc.  In the dataset with the
  negated rotation, the capture \<open>d3\<close> is stamped before the first sample, and the
  box of the instance seen in both samples has the rotation \<open>[1, 0, 0, 0]\<close>, not
  the rotation \<open>[- 1, 0, 0, 0]\<close> of the annotation of the first sample.
\<close>

theorem get_boxes_clamped_counterexample:
  "make_reverse_index flip_raw = Inr flip_out
   \<and> sd_timestamp (rows (t_sample_data flip_out) ! 2) \<le> s_timestamp (rows (t_sample flip_out) ! 0)
   \<and> get_boxes arc_ext flip_out ''d3'' =
       Inr [\<lparr>box_center = [0, 0, 0], box_size = [2, 4, 1], box_orientation = [1, 0, 0, 0],
             box_name = ''car'', box_token = ''a2''\<rparr>,
            \<lparr>box_center = [5, 5, 0], box_size = [1, 1, 2], box_orientation = [1, 0, 0, 0],
             box_name = ''car'', box_token = ''a3''\<rparr>]
   \<and> ann_instance_token (rows (t_sample_annotation flip_out) ! 0)
       = ann_instance_token (rows (t_sample_annotation flip_out) ! 1)
   \<and> ann_rotation (rows (t_sample_annotation flip_out) ! 0) = [- 1, 0, 0, 0]"
proof -
  have "sd_timestamp (rows (t_sample_data flip_out) ! 2) \<le> s_timestamp (rows (t_sample flip_out) ! 0)"
    and "ann_instance_token (rows (t_sample_annotation flip_out) ! 0)
       = ann_instance_token (rows (t_sample_annotation flip_out) ! 1)"
    and "ann_rotation (rows (t_sample_annotation flip_out) ! 0) = [- 1, 0, 0, 0]"
    by (simp_all add: flip_out_def flip_rotation_def demo_out_def demo_den_def demo_defs)
  with make_reverse_index_flip flip_boxes_d3 show ?thesis by simp
qed

theorem get_boxes_clamped_witness:
  "get_boxes arc_ext flip_out ''d3'' =
     Inr [\<lparr>box_center = [0, 0, 0], box_size = [2, 4, 1], box_orientation = [1, 0, 0, 0],
           box_name = ''car'', box_token = ''a2''\<rparr>,
          \<lparr>box_center = [5, 5, 0], box_size = [1, 1, 2], box_orientation = [1, 0, 0, 0],
           box_name = ''car'', box_token = ''a3''\<rparr>]
   \<and> ann_translation (rows (t_sample_annotation flip_out) ! 0) = [0, 0, 0]
   \<and> slerp arc_ext [- 1, 0, 0, 0] [1, 0, 0, 0] 0 = [1, 0, 0, 0]
   \<and> get_boxes arc_ext flip_out ''d4'' =
     Inr [\<lparr>box_center = [2, 0, 0], box_size = [2, 4, 1], box_orientation = [1, 0, 0, 0],
           box_name = ''car'', box_token = ''a2''\<rparr>,
          \<lparr>box_center = [5, 5, 0], box_size = [1, 1, 2], box_orientation = [1, 0, 0, 0],
           box_name = ''car'', box_token = ''a3''\<rparr>]
   \<and> ann_translation (rows (t_sample_annotation flip_out) ! 1) = [2, 0, 0]
   \<and> slerp arc_ext [- 1, 0, 0, 0] [1, 0, 0, 0] 1 = [1, 0, 0, 0]"
proof -
  let ?db = "flip_out"
  let ?S = "rows (t_sample ?db) ! 1" and ?P = "rows (t_sample ?db) ! 0"
  let ?D3 = "rows (t_sample_data ?db) ! 2" and ?D4 = "rows (t_sample_data ?db) ! 3"
  let ?a1 = "rows (t_sample_annotation ?db) ! 0"
  let ?a2 = "rows (t_sample_annotation ?db) ! 1"
  let ?a3 = "rows (t_sample_annotation ?db) ! 2"
  let ?B3 = "[\<lparr>box_center = [0, 0, 0], box_size = [2, 4, 1], box_orientation = [1, 0, 0, 0],
           box_name = ''car'', box_token = ''a2''\<rparr>,
          \<lparr>box_center = [5, 5, 0], box_size = [1, 1, 2], box_orientation = [1, 0, 0, 0],
           box_name = ''car'', box_token = ''a3''\<rparr>]"
  let ?B4 = "[\<lparr>box_center = [2, 0, 0], box_size = [2, 4, 1], box_orientation = [1, 0, 0, 0],
           box_name = ''car'', box_token = ''a2''\<rparr>,
          \<lparr>box_center = [5, 5, 0], box_size = [1, 1, 2], box_orientation = [1, 0, 0, 0],
           box_name = ''car'', box_token = ''a3''\<rparr>]"
  have nokey: "\<not> sd_is_key_frame ?D3" "\<not> sd_is_key_frame ?D4"
    and prev: "s_prev ?S \<noteq> ''''"
    and order: "s_timestamp ?P < s_timestamp ?S"
    and canns: "s_anns ?S = Some [''a2'', ''a3'']"
    and panns: "s_anns ?P = Some [''a1'']"
    and once: "distinct (map ann_instance_token [?a1])"
    and i: "0 < length [?a2, ?a3]"
    and p: "?a1 \<in> set [?a1]"
    and inst: "ann_instance_token ?a1 = ann_instance_token ([?a2, ?a3] ! 0)"
    and len: "length (ann_translation ?a1) = length (ann_translation ([?a2, ?a3] ! 0))"
    and early: "sd_timestamp ?D3 \<le> s_timestamp ?P"
    and late: "s_timestamp ?S \<le> sd_timestamp ?D4"
    and vals: "ann_translation ?a1 = [0, 0, 0]" "ann_rotation ?a1 = [- 1, 0, 0, 0]"
      "ann_translation ?a2 = [2, 0, 0]" "ann_rotation ?a2 = [1, 0, 0, 0]"
    by (simp_all add: flip_out_def flip_rotation_def demo_out_def demo_den_def demo_defs)
  from get_boxes_clamped [OF flip_D3 flip_S3 nokey(1) prev flip_P order canns flip_curr_recs
      panns flip_prev_recs once flip_boxes_d3 i p inst len arc_ext_interp] early
  have lo: "box_center (?B3 ! 0) = ann_translation ?a1
          \<and> box_orientation (?B3 ! 0)
              = slerp arc_ext (ann_rotation ?a1) (ann_rotation ([?a2, ?a3] ! 0)) 0"
    by blast
  from get_boxes_clamped [OF flip_D4 flip_S4 nokey(2) prev flip_P order canns flip_curr_recs
      panns flip_prev_recs once flip_boxes_d4 i p inst len arc_ext_interp] late
  have hi: "box_center (?B4 ! 0) = ann_translation ([?a2, ?a3] ! 0)
          \<and> box_orientation (?B4 ! 0)
              = slerp arc_ext (ann_rotation ?a1) (ann_rotation ([?a2, ?a3] ! 0)) 1"
    by blast
  from lo hi vals flip_boxes_d3 flip_boxes_d4 show ?thesis by simp
qed

section \<open>Evaluating the rounding\<close>

lemma floor_log2_eq:
  assumes "2 powi k \<le> x" and "x < 2 powi (k + 1)"
  shows "\<lfloor>log 2 x\<rfloor> = k"
proof -
  have "(0::real) < 2 powi k" by simp
  with assms(1) have pos: "0 < x" by linarith
  have a: "(2::real) powr of_int k = 2 powi k" for k
    by (simp add: powr_real_of_int' power_int_def)
  have "of_int k \<le> log 2 x" using pos assms(1) by (simp add: le_log_iff a)
  moreover have "log 2 x < of_int k + 1" using pos assms(2) a [of "k + 1"]
    by (simp add: log_less_iff)
  ultimately show ?thesis by (simp add: floor_eq_iff)
qed

lemma round_double_eval:
  assumes "2 powi k \<le> \<bar>x\<bar>" and "\<bar>x\<bar> < 2 powi (k + 1)"
  shows "round_double x = of_int (round_half_even (x / 2 powi (k - 52))) * 2 powi (k - 52)"
proof -
  have "(0::real) < 2 powi k" by simp
  with assms(1) have "0 < \<bar>x\<bar>" by linarith
  then have "x \<noteq> 0" by simp
  with floor_log2_eq [OF assms] show ?thesis by (simp add: round_double_def Let_def)
qed

lemmas round_double_simps = round_half_even_def power_int_def power_one_over Let_def

lemma round_double_0: "round_double 0 = 0"
  by (simp add: round_double_def)

section \<open>Velocity of a box\<close>

text \<open>
  Claim C5.  For an annotation \<open>current\<close>: with neither \<open>prev\<close> nor \<open>next\<close> the
  result is three NaNs.  Otherwise let \<open>first\<close> be the previous annotation if there
  is one and \<open>current\<close> if not, \<open>last\<close> the next annotation if there is one and
  \<open>current\<close> if not, the time difference that of their samples' timestamps in
  seconds, and the threshold \<open>max_time_diff\<close>, doubled exactly when both links
  exist.  The result is three NaNs when the time difference is above the threshold.
  Otherwise each component is the difference of the translations divided by the time
  difference: the rounded quotient when the time difference is not zero, and numpy's
  infinity or NaN when it is.  Every operation is the double operation: the exact
  result, rounded by \<open>rd\<close>.
\<close>

theorem box_velocity_cases:
  assumes cur: "get db ''sample_annotation'' t_sample_annotation tok = Inr current"
  shows "(ann_prev current = '''' \<and> ann_next current = '''' \<longrightarrow>
            box_velocity rd db tok max_time_diff = Inr [NaN, NaN, NaN])
       \<and> ((ann_prev current \<noteq> '''' \<or> ann_next current \<noteq> '''')
            \<and> (if ann_prev current \<noteq> ''''
                then get db ''sample_annotation'' t_sample_annotation (ann_prev current) = Inr ann_first
                else ann_first = current)
            \<and> (if ann_next current \<noteq> ''''
                then get db ''sample_annotation'' t_sample_annotation (ann_next current) = Inr ann_last
                else ann_last = current)
            \<and> get db ''sample'' t_sample (ann_sample_token ann_last) = Inr sample_last
            \<and> get db ''sample'' t_sample (ann_sample_token ann_first) = Inr sample_first
          \<longrightarrow>
            (let time_diff = rd (rd (rd (1 / 1000000) * s_timestamp sample_last)
                                 - rd (rd (1 / 1000000) * s_timestamp sample_first));
                 threshold = (if ann_prev current \<noteq> '''' \<and> ann_next current \<noteq> ''''
                              then rd (max_time_diff * 2) else max_time_diff)
             in box_velocity rd db tok max_time_diff =
                  (if time_diff > threshold then Inr [NaN, NaN, NaN]
                   else Inr (map2 (\<lambda>l f.
                                if time_diff = 0
                                then (if rd (l - f) = 0 then NaN
                                      else if 0 < rd (l - f) then PosInf else NegInf)
                                else Finite (rd (rd (l - f) / time_diff)))
                               (ann_translation ann_last) (ann_translation ann_first)))))"
proof (intro conjI impI)
  assume "ann_prev current = '''' \<and> ann_next current = ''''"
  then show "box_velocity rd db tok max_time_diff = Inr [NaN, NaN, NaN]"
    by (simp add: box_velocity_def cur)
next
  assume a: "(ann_prev current \<noteq> '''' \<or> ann_next current \<noteq> '''')
            \<and> (if ann_prev current \<noteq> ''''
                then get db ''sample_annotation'' t_sample_annotation (ann_prev current) = Inr ann_first
                else ann_first = current)
            \<and> (if ann_next current \<noteq> ''''
                then get db ''sample_annotation'' t_sample_annotation (ann_next current) = Inr ann_last
                else ann_last = current)
            \<and> get db ''sample'' t_sample (ann_sample_token ann_last) = Inr sample_last
            \<and> get db ''sample'' t_sample (ann_sample_token ann_first) = Inr sample_first"
  then have f: "(if ann_prev current \<noteq> ''''
                 then get db ''sample_annotation'' t_sample_annotation (ann_prev current)
                 else Inr current) = Inr ann_first"
    and l: "(if ann_next current \<noteq> ''''
                 then get db ''sample_annotation'' t_sample_annotation (ann_next current)
                 else Inr current) = Inr ann_last"
    and sl: "get db ''sample'' t_sample (ann_sample_token ann_last) = Inr sample_last"
    and sf: "get db ''sample'' t_sample (ann_sample_token ann_first) = Inr sample_first"
    and some: "\<not> (ann_prev current = '''' \<and> ann_next current = '''')"
    by (auto split: if_splits)
  let ?td = "rd (rd (rd (1 / 1000000) * s_timestamp sample_last)
                 - rd (rd (1 / 1000000) * s_timestamp sample_first))"
  let ?thr = "if ann_prev current \<noteq> '''' \<and> ann_next current \<noteq> ''''
              then rd (max_time_diff * 2) else max_time_diff"
  have "box_velocity rd db tok max_time_diff =
      (if ?td > ?thr then Inr [NaN, NaN, NaN]
       else Inr (map (\<lambda>d. np_divide rd d ?td)
                   (map2 (\<lambda>l f. rd (l - f)) (ann_translation ann_last) (ann_translation ann_first))))"
  proof (cases "ann_prev current = ''''")
    case True
    with some have "ann_next current \<noteq> ''''" by simp
    with True f l sl sf show ?thesis
      by (simp add: box_velocity_def cur Let_def)
  next
    case False
    show ?thesis
    proof (cases "ann_next current = ''''")
      case True
      with False f l sl sf show ?thesis
        by (simp add: box_velocity_def cur Let_def)
    next
      case nx: False
      with False f l sl sf show ?thesis
        by (simp add: box_velocity_def cur Let_def)
    qed
  qed
  moreover have "map (\<lambda>d. np_divide rd d t) (map2 (\<lambda>l f. rd (l - f)) xs ys)
      = map2 (\<lambda>l f. if t = 0
                      then (if rd (l - f) = 0 then NaN
                            else if 0 < rd (l - f) then PosInf else NegInf)
                      else Finite (rd (rd (l - f) / t))) xs ys" for t xs ys
    by (induction xs arbitrary: ys) (auto simp: np_divide_def split: list.splits)
  ultimately show "(let time_diff = rd (rd (rd (1 / 1000000) * s_timestamp sample_last)
                                 - rd (rd (1 / 1000000) * s_timestamp sample_first));
                 threshold = (if ann_prev current \<noteq> '''' \<and> ann_next current \<noteq> ''''
                              then rd (max_time_diff * 2) else max_time_diff)
             in box_velocity rd db tok max_time_diff =
                  (if time_diff > threshold then Inr [NaN, NaN, NaN]
                   else Inr (map2 (\<lambda>l f.
                                if time_diff = 0
                                then (if rd (l - f) = 0 then NaN
                                      else if 0 < rd (l - f) then PosInf else NegInf)
                                else Finite (rd (rd (l - f) / time_diff)))
                               (ann_translation ann_last) (ann_translation ann_first))))"
    unfolding Let_def by simp
qed

lemmas round_double_evals =
  round_double_eval [where k = "- 20"] round_double_eval [where k = "- 1"]
  round_double_eval [where k = 0] round_double_eval [where k = 1]
  round_double_eval [where k = 2] round_double_0 round_double_simps

theorem box_velocity_cases_witness:
  "box_velocity round_double (demo_out 1500000) ''a3'' (3 / 2) = Inr [NaN, NaN, NaN]
   \<and> box_velocity round_double (demo_out 1500000) ''a1'' (3 / 2)
       = Inr [Finite 4, Finite 0, Finite 0]
   \<and> box_velocity round_double (demo_out 1500000) ''a1'' (1 / 4) = Inr [NaN, NaN, NaN]
   \<and> box_velocity round_double (demo_out 1600000) ''a1'' (5404319552844595 / 9007199254740992)
       = Inr [Finite (1876499844737707 / 562949953421312), Finite 0, Finite 0]"
proof -
  let ?db = "demo_out 1500000"
  let ?S = "rows (t_sample ?db) ! Suc 0" and ?P = "rows (t_sample ?db) ! 0"
  let ?a1 = "rows (t_sample_annotation ?db) ! 0"
  let ?a2 = "rows (t_sample_annotation ?db) ! Suc 0"
  let ?a3 = "rows (t_sample_annotation ?db) ! 2"
  have cur1: "get ?db ''sample_annotation'' t_sample_annotation ''a1'' = Inr ?a1"
    and cur3: "get ?db ''sample_annotation'' t_sample_annotation ''a3'' = Inr ?a3"
    and nxt: "get ?db ''sample_annotation'' t_sample_annotation (ann_next ?a1) = Inr ?a2"
    and sl: "get ?db ''sample'' t_sample (ann_sample_token ?a2) = Inr ?S"
    and sf: "get ?db ''sample'' t_sample (ann_sample_token ?a1) = Inr ?P"
    by (simp_all add: demo_eval)
  have links: "ann_prev ?a3 = ''''" "ann_next ?a3 = ''''" "ann_prev ?a1 = ''''"
      "ann_next ?a1 \<noteq> ''''"
    and vals: "s_timestamp ?S = 1500000" "s_timestamp ?P = 1000000"
      "ann_translation ?a2 = [2, 0, 0]" "ann_translation ?a1 = [0, 0, 0]"
    by (simp_all add: demo_out_def demo_den_def demo_defs)
  from box_velocity_cases [OF cur3, where max_time_diff = "3 / 2" and rd = round_double] links
  have a: "box_velocity round_double ?db ''a3'' (3 / 2) = Inr [NaN, NaN, NaN]" by simp
  from box_velocity_cases [OF cur1, where ann_first = ?a1 and ann_last = ?a2
      and sample_last = ?S and sample_first = ?P and max_time_diff = "3 / 2"
      and rd = round_double] links nxt sl sf
  have b: "box_velocity round_double ?db ''a1'' (3 / 2) = Inr [Finite 4, Finite 0, Finite 0]"
    by (simp add: vals round_double_evals)
  from box_velocity_cases [OF cur1, where ann_first = ?a1 and ann_last = ?a2
      and sample_last = ?S and sample_first = ?P and max_time_diff = "1 / 4"
      and rd = round_double] links nxt sl sf
  have c: "box_velocity round_double ?db ''a1'' (1 / 4) = Inr [NaN, NaN, NaN]"
    by (simp add: vals round_double_evals)
  let ?db' = "demo_out 1600000"
  let ?S' = "rows (t_sample ?db') ! Suc 0" and ?P' = "rows (t_sample ?db') ! 0"
  let ?b1 = "rows (t_sample_annotation ?db') ! 0"
  let ?b2 = "rows (t_sample_annotation ?db') ! Suc 0"
  have cur1': "get ?db' ''sample_annotation'' t_sample_annotation ''a1'' = Inr ?b1"
    and nxt': "get ?db' ''sample_annotation'' t_sample_annotation (ann_next ?b1) = Inr ?b2"
    and sl': "get ?db' ''sample'' t_sample (ann_sample_token ?b2) = Inr ?S'"
    and sf': "get ?db' ''sample'' t_sample (ann_sample_token ?b1) = Inr ?P'"
    by (simp_all add: demo_eval)
  have links': "ann_prev ?b1 = ''''" "ann_next ?b1 \<noteq> ''''"
    and vals': "s_timestamp ?S' = 1600000" "s_timestamp ?P' = 1000000"
      "ann_translation ?b2 = [2, 0, 0]" "ann_translation ?b1 = [0, 0, 0]"
    by (simp_all add: demo_out_def demo_den_def demo_defs)
  from box_velocity_cases [OF cur1', where ann_first = ?b1 and ann_last = ?b2
      and sample_last = ?S' and sample_first = ?P'
      and max_time_diff = "5404319552844595 / 9007199254740992"
      and rd = round_double] links' nxt' sl' sf'
  have d: "box_velocity round_double ?db' ''a1'' (5404319552844595 / 9007199254740992)
      = Inr [Finite (1876499844737707 / 562949953421312), Finite 0, Finite 0]"
    by (simp add: vals' round_double_evals)
  from a b c d show ?thesis by simp
qed

end
